theory Spec2Isabelle
  imports Complex_Main
begin

section \<open>Python values used by urls.py\<close>

text \<open>
  A Python \<open>str\<close> is a sequence of Unicode code points, a \<open>bytes\<close> object a sequence of
  bytes. Code points are natural numbers; bytes are HOL characters, so that the content
  of a report file is written as a HOL string.
\<close>

type_synonym pystr = "nat list"

abbreviation str :: "string \<Rightarrow> pystr" where
  "str s \<equiv> map of_char s"

datatype error = ValueError | UnicodeDecodeError | OSError | NameError | FileNotFoundError

subsection \<open>str methods\<close>

text \<open>\<open>s.startswith(p)\<close> and \<open>s.endswith(p)\<close>.\<close>

definition startswith :: "'a list \<Rightarrow> 'a list \<Rightarrow> bool" where
  "startswith s p = (take (length p) s = p)"

definition endswith :: "'a list \<Rightarrow> 'a list \<Rightarrow> bool" where
  "endswith s p = (length p \<le> length s \<and> drop (length s - length p) s = p)"

text \<open>\<open>p in s\<close> on strings: \<open>p\<close> occurs in \<open>s\<close> as a contiguous run.\<close>

fun contains :: "'a list \<Rightarrow> 'a list \<Rightarrow> bool" where
  "contains [] p = (p = [])"
| "contains (c # cs) p = (startswith (c # cs) p \<or> contains cs p)"

definition between :: "nat \<Rightarrow> nat \<Rightarrow> nat \<Rightarrow> bool" where
  "between lo hi c = (lo \<le> c \<and> c \<le> hi)"

text \<open>
  The code points that \<open>str.strip()\<close> and \<open>str.split()\<close> treat as whitespace
  (CPython's \<open>Py_UNICODE_ISSPACE\<close>).
\<close>

definition isspace :: "nat \<Rightarrow> bool" where
  "isspace c = (between 0x09 0x0D c \<or> between 0x1C 0x20 c \<or> c = 0x85 \<or> c = 0xA0
     \<or> c = 0x1680 \<or> between 0x2000 0x200A c \<or> c = 0x2028 \<or> c = 0x2029
     \<or> c = 0x202F \<or> c = 0x205F \<or> c = 0x3000)"

definition strip_with :: "('a \<Rightarrow> bool) \<Rightarrow> 'a list \<Rightarrow> 'a list" where
  "strip_with sp s = rev (dropWhile sp (rev (dropWhile sp s)))"

definition strip :: "pystr \<Rightarrow> pystr" where
  "strip s = strip_with isspace s"

text \<open>\<open>s.split()\<close>: the maximal runs of non-whitespace, in order.\<close>

fun split :: "pystr \<Rightarrow> pystr list" where
  "split [] = []"
| "split (c # cs) =
     (if isspace c then split cs
      else if cs = [] \<or> isspace (hd cs) then [c] # split cs
      else (case split cs of [] \<Rightarrow> [[c]] | w # ws \<Rightarrow> (c # w) # ws))"

text \<open>\<open>s.split(sep)\<close> for a one-character separator, and \<open>sep.join(parts)\<close>.\<close>

fun split_on :: "'a \<Rightarrow> 'a list \<Rightarrow> 'a list list" where
  "split_on sep [] = [[]]"
| "split_on sep (c # cs) =
     (if c = sep then [] # split_on sep cs
      else (case split_on sep cs of [] \<Rightarrow> [[c]] | p # ps \<Rightarrow> (c # p) # ps))"

fun join :: "'a \<Rightarrow> 'a list list \<Rightarrow> 'a list" where
  "join sep [] = []"
| "join sep [p] = p"
| "join sep (p # q # ps) = p @ sep # join sep (q # ps)"

subsection \<open>UTF-8\<close>

text \<open>
  \<open>bytes.decode('utf-8', errors)\<close>. A lead byte announces \<open>need\<close> trailing bytes; the
  second byte of a sequence is restricted further so that overlong forms, surrogates
  and code points above U+10FFFF are ill-formed. \<open>trail\<close> is the longest run of
  trailing bytes that still is the beginning of a well-formed sequence: an ill-formed
  sequence ends there, and the decoder resumes at the next byte.
\<close>

definition need :: "nat \<Rightarrow> nat" where
  "need b0 = (if between 0xC2 0xDF b0 then 1 else if between 0xE0 0xEF b0 then 2
              else if between 0xF0 0xF4 b0 then 3 else 0)"

definition lead_base :: "nat \<Rightarrow> nat" where
  "lead_base b0 = (if need b0 = 1 then 0xC0 else if need b0 = 2 then 0xE0
                   else if need b0 = 3 then 0xF0 else 0)"

definition continuation :: "nat \<Rightarrow> bool" where
  "continuation b = between 0x80 0xBF b"

definition second_ok :: "nat \<Rightarrow> nat \<Rightarrow> bool" where
  "second_ok b0 b1 =
     (if b0 = 0xE0 then between 0xA0 0xBF b1
      else if b0 = 0xED then between 0x80 0x9F b1
      else if b0 = 0xF0 then between 0x90 0xBF b1
      else if b0 = 0xF4 then between 0x80 0x8F b1
      else continuation b1)"

definition trail :: "nat \<Rightarrow> nat list \<Rightarrow> nat list" where
  "trail b0 bs =
     (case take (need b0) bs of
        [] \<Rightarrow> []
      | b1 # r \<Rightarrow> if second_ok b0 b1 then b1 # takeWhile continuation r else [])"

text \<open>One item per decoded code point, \<open>None\<close> for each ill-formed sequence.\<close>

fun utf8_items :: "nat list \<Rightarrow> nat option list" where
  "utf8_items [] = []"
| "utf8_items (b0 # bs) =
     (if (b0 < 0x80 \<or> 0 < need b0) \<and> length (trail b0 bs) = need b0
      then Some (foldl (\<lambda>a b. a * 64 + (b - 0x80)) (b0 - lead_base b0) (trail b0 bs))
      else None)
     # utf8_items (drop (length (trail b0 bs)) bs)"

text \<open>\<open>errors='strict'\<close>: \<open>None\<close> is UnicodeDecodeError.\<close>

definition decode_utf8 :: "string \<Rightarrow> pystr option" where
  "decode_utf8 bs = those (utf8_items (map of_char bs))"

text \<open>\<open>errors='replace'\<close>: U+FFFD stands for each ill-formed sequence.\<close>

definition decode_utf8_replace :: "nat list \<Rightarrow> pystr" where
  "decode_utf8_replace bs = map (\<lambda>i. case i of None \<Rightarrow> 0xFFFD | Some c \<Rightarrow> c) (utf8_items bs)"

subsection \<open>urllib.parse.unquote\<close>

definition hexval :: "nat \<Rightarrow> nat option" where
  "hexval c = (if between 0x30 0x39 c then Some (c - 0x30)
               else if between 0x41 0x46 c then Some (c - 0x41 + 10)
               else if between 0x61 0x66 c then Some (c - 0x61 + 10)
               else None)"

text \<open>
  \<open>unquote_to_bytes\<close> on an ASCII string: a percent sign followed by two hexadecimal
  digits is that byte, any other character is itself.
\<close>

fun unquote_to_bytes :: "pystr \<Rightarrow> nat list" where
  "unquote_to_bytes [] = []"
| "unquote_to_bytes (c # cs) =
     (if c = 0x25 then
        (case cs of
           h1 # h2 # rest \<Rightarrow>
             (case (hexval h1, hexval h2) of
                (Some a, Some b) \<Rightarrow> (16 * a + b) # unquote_to_bytes rest
              | _ \<Rightarrow> c # unquote_to_bytes cs)
         | _ \<Rightarrow> c # unquote_to_bytes cs)
      else c # unquote_to_bytes cs)"

text \<open>The maximal runs of ASCII and of non-ASCII code points, each tagged.\<close>

fun ascii_runs :: "pystr \<Rightarrow> (bool \<times> pystr) list" where
  "ascii_runs [] = []"
| "ascii_runs (c # cs) =
     (case ascii_runs cs of
        [] \<Rightarrow> [(c < 0x80, [c])]
      | (a, r) # rs \<Rightarrow>
          if a = (c < 0x80) then (a, c # r) # rs else (c < 0x80, [c]) # (a, r) # rs)"

text \<open>
  \<open>unquote(string)\<close> with its defaults \<open>encoding='utf-8', errors='replace'\<close>: each ASCII
  run is unquoted to bytes and decoded on its own; non-ASCII runs are kept.
\<close>

definition unquote :: "pystr \<Rightarrow> pystr" where
  "unquote s =
     (if 0x25 \<notin> set s then s
      else concat (map (\<lambda>(a, r). if a then decode_utf8_replace (unquote_to_bytes r) else r)
                       (ascii_runs s)))"

subsection \<open>int(str)\<close>

text \<open>
  What the script reads from outside: the ignore list loaded at start-up from
  \<open>ignore_urls.txt\<close>, the decimal value of the non-ASCII decimal digits (the Unicode
  database, which \<open>int\<close> and \<open>\d\<close> consult), the interpreter's limit on the
  number of digits \<open>int\<close> converts (0 switches it off; the limit never applies to 640
  digits or fewer), and the largest file offset that the file system of the report
  files accepts (2^44 - 4096 on ext4, 2^63 - 4097 on tmpfs). No whitespace character is
  a decimal digit.
\<close>

record env =
  ignore_patterns :: "pystr list"
  nonascii_decimal :: "nat \<Rightarrow> nat option"
  int_max_str_digits :: nat
  max_file_offset :: nat

definition decimal :: "env \<Rightarrow> nat \<Rightarrow> nat option" where
  "decimal env c = (if between 0x30 0x39 c then Some (c - 0x30)
                    else if c < 0x80 \<or> isspace c then None
                    else nonascii_decimal env c)"

text \<open>
  \<open>int\<close> skips ASCII whitespace and the non-ASCII Unicode spaces around the literal,
  then reads an optional sign and decimal digits, where single underscores may stand
  between digits. \<open>None\<close> is ValueError.
\<close>

definition int_space :: "nat \<Rightarrow> bool" where
  "int_space c = (between 0x09 0x0D c \<or> c = 0x20 \<or> (0x80 \<le> c \<and> isspace c))"

fun int_digits :: "env \<Rightarrow> bool \<Rightarrow> pystr \<Rightarrow> nat list option" where
  "int_digits env prev [] = (if prev then Some [] else None)"
| "int_digits env prev (c # cs) =
     (if c = 0x5F then (if prev then int_digits env False cs else None)
      else (case decimal env c of
              None \<Rightarrow> None
            | Some d \<Rightarrow> map_option ((#) d) (int_digits env True cs)))"

definition too_many_digits :: "env \<Rightarrow> nat \<Rightarrow> bool" where
  "too_many_digits env n = (0 < int_max_str_digits env \<and> max 640 (int_max_str_digits env) < n)"

definition py_int :: "env \<Rightarrow> pystr \<Rightarrow> int option" where
  "py_int env s =
     (let t = strip_with int_space s;
          neg = (t \<noteq> [] \<and> hd t = 0x2D);
          body = (if t \<noteq> [] \<and> (hd t = 0x2D \<or> hd t = 0x2B) then tl t else t)
      in case int_digits env False body of
           None \<Rightarrow> None
         | Some ds \<Rightarrow>
             if too_many_digits env (length ds) then None
             else let v = foldl (\<lambda>a d. 10 * a + int d) 0 ds
                  in Some (if neg then - v else v))"

subsection \<open>Binary files\<close>

text \<open>Iterating over a file opened with \<open>'rb'\<close>: each line keeps its line feed.\<close>

fun readlines :: "string \<Rightarrow> string list" where
  "readlines [] = []"
| "readlines (c # cs) =
     (if c = CHR 0x0A then [c] # readlines cs
      else (case readlines cs of [] \<Rightarrow> [[c]] | l # ls \<Rightarrow> (c # l) # ls))"

section \<open>The parsers\<close>

text \<open>\<open>should_ignore_url\<close> (urls.py, line 78).\<close>

definition should_ignore_url :: "env \<Rightarrow> pystr \<Rightarrow> bool" where
  "should_ignore_url env url =
     (url \<in> set [[], str ''/'']
      \<or> list_ex (\<lambda>pattern. startswith url pattern) (ignore_patterns env))"

text \<open>
  \<open>parse_begin_map\<close> (line 82). The dictionary \<open>positions\<close> is a map; the loop over the
  lines of the file is the recursion, \<open>continue\<close> the recursive call and \<open>break\<close> the
  return of the dictionary.
\<close>

fun parse_begin_map_loop ::
  "env \<Rightarrow> string list \<Rightarrow> (pystr \<rightharpoonup> int) \<Rightarrow> error + (pystr \<rightharpoonup> int)" where
  "parse_begin_map_loop env [] positions = Inr positions"
| "parse_begin_map_loop env (raw # rest) positions =
     (case decode_utf8 raw of
        None \<Rightarrow> Inl UnicodeDecodeError
      | Some text \<Rightarrow>
          let line = strip text in
          if startswith line (str ''BEGIN_MAP'') then parse_begin_map_loop env rest positions
          else if startswith line (str ''END_MAP'') then Inr positions
          else
            let parts = split line in
            if length parts = 2 \<and> startswith (parts ! 0) (str ''POS_'') then
              (case py_int env (parts ! 1) of
                 None \<Rightarrow> Inl ValueError
               | Some n \<Rightarrow> parse_begin_map_loop env rest (positions(parts ! 0 \<mapsto> n)))
            else parse_begin_map_loop env rest positions)"

definition parse_begin_map :: "env \<Rightarrow> string \<Rightarrow> error + (pystr \<rightharpoonup> int)" where
  "parse_begin_map env file = parse_begin_map_loop env (readlines file) Map.empty"

text \<open>The dictionaries that \<open>parse_pos_sider\<close> appends to \<open>url_data\<close>.\<close>

record url_data =
  url :: pystr
  pages :: int
  bandwidth :: int
  entry :: int
  exit :: int

text \<open>The three steps that lines 107 to 115 apply to \<open>parts[0]\<close>.\<close>

definition normalize_url :: "pystr \<Rightarrow> pystr" where
  "normalize_url field =
     (let url = field;
          url = (if startswith url (str ''/'') then drop 1 url else url);
          url = (if startswith url (str ''wiki/'') then drop (length ''wiki/'') url else url)
      in unquote url)"

text \<open>
  \<open>file.seek\<close> on the buffered reader. An offset that does not fit the signed 64-bit
  file offset is refused before the operating system is asked (ValueError); a negative
  offset and an offset above the largest one of the file system fail in the operating
  system (OSError). Up to that limit the call succeeds, also past the end of the file,
  where nothing is read.
\<close>

definition seek :: "env \<Rightarrow> string \<Rightarrow> int \<Rightarrow> error + string" where
  "seek env file offset =
     (if offset < - (2 ^ 63) \<or> 2 ^ 63 \<le> offset then Inl ValueError
      else if offset < 0 \<or> int (max_file_offset env) < offset then Inl OSError
      else Inr (drop (nat offset) file))"

text \<open>\<open>parse_pos_sider\<close> (line 97); \<open>url_data\<close> is the accumulator.\<close>

fun parse_pos_sider_loop ::
  "env \<Rightarrow> string list \<Rightarrow> url_data list \<Rightarrow> error + url_data list" where
  "parse_pos_sider_loop env [] url_data = Inr url_data"
| "parse_pos_sider_loop env (raw # rest) url_data =
     (case decode_utf8 raw of
        None \<Rightarrow> Inl UnicodeDecodeError
      | Some text \<Rightarrow>
          let line = strip text in
          if startswith line (str ''END_SIDER'') then Inr url_data
          else if \<not> startswith line (str ''#'') \<and> \<not> startswith line (str ''BEGIN_SIDER'') then
            let parts = split line in
            if length parts = 5 then
              let url = normalize_url (parts ! 0) in
              if should_ignore_url env url then parse_pos_sider_loop env rest url_data
              else
                (case those (map (py_int env) (tl parts)) of
                   Some [pages_n, bandwidth_n, entry_n, exit_n] \<Rightarrow>
                     parse_pos_sider_loop env rest
                       (url_data @ [\<lparr>url = url, pages = pages_n, bandwidth = bandwidth_n,
                                      entry = entry_n, exit = exit_n\<rparr>])
                 | _ \<Rightarrow> Inl ValueError)
            else parse_pos_sider_loop env rest url_data
          else parse_pos_sider_loop env rest url_data)"

definition parse_pos_sider :: "env \<Rightarrow> string \<Rightarrow> int \<Rightarrow> error + url_data list" where
  "parse_pos_sider env file pos_sider_offset =
     (case seek env file pos_sider_offset of
        Inl e \<Rightarrow> Inl e
      | Inr rest \<Rightarrow> parse_pos_sider_loop env (readlines rest) [])"

section \<open>The database\<close>

text \<open>
  The four tables the script reads and writes, each a list of rows in insertion order.
  \<open>SELECT\<close> with \<open>fetchone\<close> is the first row that matches, \<open>DELETE\<close> removes the rows
  that match, \<open>INSERT\<close> appends. Strings are compared code point by code point.
  A \<open>datetime\<close> is its calendar fields down to the second, as one number, and its
  microseconds.
\<close>

record datetime =
  seconds :: int
  microsecond :: nat

record websites_row =
  w_id :: nat
  w_name :: pystr

record website_url_row =
  wu_id :: nat
  wu_website_id :: nat
  wu_url :: pystr

record website_url_stats_row =
  ws_website_url_id :: nat
  ws_server_id :: nat
  ws_year :: int
  ws_month :: int
  hits :: int
  entry_count :: int
  exit_count :: int

record file_tracking_row =
  ft_filename :: pystr
  ft_server_id :: nat
  last_modified :: datetime
  processed_date :: datetime

text \<open>
  The keys behind the two \<open>ON DUPLICATE KEY UPDATE\<close> statements: one stats row per URL,
  server, year and month, one tracking row per file name and server.
\<close>

definition stats_key :: "website_url_stats_row \<Rightarrow> nat \<times> nat \<times> int \<times> int" where
  "stats_key ws = (ws_website_url_id ws, ws_server_id ws, ws_year ws, ws_month ws)"

definition tracking_key :: "file_tracking_row \<Rightarrow> pystr \<times> nat" where
  "tracking_key ft = (ft_filename ft, ft_server_id ft)"

text \<open>\<open>website_url_autoinc\<close> is the AUTO_INCREMENT counter behind \<open>cursor.lastrowid\<close>.\<close>

record database =
  websites :: "websites_row list"
  website_url :: "website_url_row list"
  website_url_stats :: "website_url_stats_row list"
  file_tracking :: "file_tracking_row list"
  website_url_autoinc :: nat

text \<open>\<open>get_server_id\<close> (line 40).\<close>

definition get_server_id :: "pystr \<Rightarrow> nat option" where
  "get_server_id directory =
     map_of [(str ''/var/lib/awstats'', 1),
             (str ''/home/private/server_stats/frankfurt'', 2),
             (str ''/home/private/server_stats/saopaulo'', 4),
             (str ''/home/private/server_stats/singapore'', 3)] directory"

text \<open>\<open>get_website_id\<close> (line 50).\<close>

definition get_website_id :: "database \<Rightarrow> pystr \<Rightarrow> error + nat" where
  "get_website_id db website_name =
     (case find (\<lambda>w. w_name w = website_name) (websites db) of
        Some result \<Rightarrow> Inr (w_id result)
      | None \<Rightarrow> Inl ValueError)"

text \<open>
  \<open>has_file_been_processed\<close> (line 59) returns \<open>False\<close> under force, \<open>None\<close> when no row
  is found, and the result of the comparison otherwise.
\<close>

datatype pyvalue = PyNone | PyBool bool

fun truthy :: "pyvalue \<Rightarrow> bool" where
  "truthy PyNone = False"
| "truthy (PyBool b) = b"

definition has_file_been_processed ::
  "database \<Rightarrow> pystr \<Rightarrow> nat \<Rightarrow> datetime \<Rightarrow> bool \<Rightarrow> pyvalue" where
  "has_file_been_processed db filename server_id last_mod forced =
     (if forced then PyBool False
      else (case find (\<lambda>ft. tracking_key ft = (filename, server_id)) (file_tracking db) of
              None \<Rightarrow> PyNone
            | Some result \<Rightarrow> PyBool (last_modified result = last_mod)))"

text \<open>\<open>update_file_tracking\<close> (line 70); \<open>now\<close> is \<open>datetime.now().replace(microsecond=0)\<close>.\<close>

definition update_file_tracking ::
  "database \<Rightarrow> pystr \<Rightarrow> nat \<Rightarrow> datetime \<Rightarrow> datetime \<Rightarrow> database" where
  "update_file_tracking db filename server_id last_mod now =
     (if list_ex (\<lambda>ft. tracking_key ft = (filename, server_id)) (file_tracking db) then
        db\<lparr>file_tracking :=
             map (\<lambda>ft. if tracking_key ft = (filename, server_id)
                        then ft\<lparr>last_modified := last_mod, processed_date := now\<rparr>
                        else ft)
                 (file_tracking db)\<rparr>
      else
        db\<lparr>file_tracking := file_tracking db @
             [\<lparr>ft_filename = filename, ft_server_id = server_id,
               last_modified = last_mod, processed_date = now\<rparr>]\<rparr>)"

text \<open>\<open>get_or_create_website_url_id\<close> (line 130): the identifier and the new state.\<close>

definition get_or_create_website_url_id ::
  "database \<Rightarrow> nat \<Rightarrow> pystr \<Rightarrow> nat \<times> database" where
  "get_or_create_website_url_id db website_id u =
     (case find (\<lambda>wu. wu_website_id wu = website_id \<and> wu_url wu = u) (website_url db) of
        Some result \<Rightarrow> (wu_id result, db)
      | None \<Rightarrow>
          (website_url_autoinc db,
           db\<lparr>website_url := website_url db @
                 [\<lparr>wu_id = website_url_autoinc db, wu_website_id = website_id, wu_url = u\<rparr>],
               website_url_autoinc := Suc (website_url_autoinc db)\<rparr>))"

text \<open>\<open>update_server_stats\<close> (line 139).\<close>

definition update_server_stats ::
  "database \<Rightarrow> nat \<Rightarrow> nat \<Rightarrow> int \<Rightarrow> int \<Rightarrow> url_data \<Rightarrow> database" where
  "update_server_stats db website_url_id server_id year month data =
     (if list_ex (\<lambda>ws. stats_key ws = (website_url_id, server_id, year, month))
                 (website_url_stats db) then
        db\<lparr>website_url_stats :=
             map (\<lambda>ws. if stats_key ws = (website_url_id, server_id, year, month)
                        then ws\<lparr>hits := hits ws + pages data,
                                entry_count := entry_count ws + entry data,
                                exit_count := exit_count ws + exit data\<rparr>
                        else ws)
                 (website_url_stats db)\<rparr>
      else
        db\<lparr>website_url_stats := website_url_stats db @
             [\<lparr>ws_website_url_id = website_url_id, ws_server_id = server_id,
               ws_year = year, ws_month = month,
               hits = pages data, entry_count = entry data, exit_count = exit data\<rparr>]\<rparr>)"

section \<open>Processing one file\<close>

text \<open>
  The file system and the clock, as \<open>process_file\<close> and \<open>main\<close> see them: the entries
  \<open>os.listdir\<close> returns for a directory, the file behind a path with the value of
  \<open>os.path.getmtime\<close> (seconds since the epoch, a float: a rational number) and its
  bytes, the value of \<open>datetime.now()\<close> when the file at a path is recorded, and the
  local time of the system: the calendar fields that the C library's \<open>localtime\<close> gives
  for a second since the epoch, or the exception that \<open>fromtimestamp\<close> raises when the
  second is out of the range of the platform or of \<open>datetime\<close>.
\<close>

record file_entry =
  mtime :: rat
  content :: string

record world =
  listdir :: "pystr \<Rightarrow> pystr list option"
  file_at :: "pystr \<Rightarrow> file_entry option"
  clock :: "pystr \<Rightarrow> datetime"
  localtime :: "int \<Rightarrow> error + int"

text \<open>
  \<open>datetime.fromtimestamp(t)\<close>. The float is split into its integral part (towards
  zero) and its fraction; the fraction, in microseconds, is rounded to the nearest
  integer, a tie to the even one, and a full second is carried over. The local time of
  the resulting second gives the calendar fields. The product with 10^6 is the exact
  one here. The interpreter computes it in double precision: for a time of 2^30 seconds
  (the year 2004) or more that product is exact too, and for an earlier time it can
  differ from the exact one only when the fraction is within a few parts in 2^53 of a
  tie.
\<close>

definition round_half_even :: "rat \<Rightarrow> int" where
  "round_half_even x =
     (let n = \<lfloor>x\<rfloor>; d = x - of_int n
      in if d < 1 / 2 then n else if 1 / 2 < d then n + 1 else if even n then n else n + 1)"

definition timestamp_parts :: "rat \<Rightarrow> int \<times> int" where
  "timestamp_parts t =
     (let intpart = (if 0 \<le> t then \<lfloor>t\<rfloor> else \<lceil>t\<rceil>);
          us = round_half_even ((t - of_int intpart) * 1000000)
      in if 1000000 \<le> us then (intpart + 1, us - 1000000)
         else if us < 0 then (intpart - 1, us + 1000000)
         else (intpart, us))"

definition fromtimestamp :: "world \<Rightarrow> rat \<Rightarrow> error + datetime" where
  "fromtimestamp world t =
     (case timestamp_parts t of
        (timet, us) \<Rightarrow>
          (case localtime world timet of
             Inl e \<Rightarrow> Inl e
           | Inr s \<Rightarrow> Inr \<lparr>seconds = s, microsecond = nat us\<rparr>))"

text \<open>\<open>os.path.join\<close> and \<open>os.path.basename\<close> (POSIX).\<close>

definition path_join :: "pystr \<Rightarrow> pystr \<Rightarrow> pystr" where
  "path_join a b =
     (if startswith b (str ''/'') then b
      else if a = [] \<or> endswith a (str ''/'') then a @ b
      else a @ str ''/'' @ b)"

definition basename :: "pystr \<Rightarrow> pystr" where
  "basename p = rev (takeWhile (\<lambda>c. c \<noteq> 0x2F) (rev p))"

text \<open>How \<open>process_file\<close> ends: it returns, or an exception leaves it; either way with
  the database as it is at that moment. \<open>Committed\<close> is for \<open>main\<close>.\<close>

datatype outcome = Committed database | Returned database | Raised error database

fun state_of :: "outcome \<Rightarrow> database" where
  "state_of (Committed db) = db"
| "state_of (Returned db) = db"
| "state_of (Raised e db) = db"

text \<open>The three values lines 172, 176 and 177 derive from the file name.\<close>

definition website_name_of :: "pystr \<Rightarrow> pystr" where
  "website_name_of filename = join 0x2E (butlast (tl (split_on 0x2E filename)))"

definition year_of :: "env \<Rightarrow> pystr \<Rightarrow> int option" where
  "year_of env filename = py_int env (take 4 (drop 9 filename))"

definition month_of :: "env \<Rightarrow> pystr \<Rightarrow> int option" where
  "month_of env filename = py_int env (take 2 (drop 7 filename))"

text \<open>The loop of lines 180 to 182.\<close>

fun merge_sider_data ::
  "database \<Rightarrow> nat \<Rightarrow> nat \<Rightarrow> int \<Rightarrow> int \<Rightarrow> url_data list \<Rightarrow> database" where
  "merge_sider_data db website_id server_id year month [] = db"
| "merge_sider_data db website_id server_id year month (data # rest) =
     (case get_or_create_website_url_id db website_id (url data) of
        (website_url_id, db1) \<Rightarrow>
          merge_sider_data (update_server_stats db1 website_url_id server_id year month data)
            website_id server_id year month rest)"

text \<open>
  \<open>process_file\<close> (line 150), in two parts. \<open>ingest\<close> is lines 159 to 186, what
  happens once the file is known to need processing: \<open>file\<close> is the bytes of the file,
  \<open>now\<close> is \<open>datetime.now().replace(microsecond=0)\<close>.
\<close>

definition ingest ::
  "env \<Rightarrow> database \<Rightarrow> pystr \<Rightarrow> nat \<Rightarrow> datetime \<Rightarrow> datetime \<Rightarrow> string \<Rightarrow> outcome" where
  "ingest env db filename server_id last_mod now file =
     (case parse_begin_map env file of
        Inl e \<Rightarrow> Raised e db
      | Inr positions \<Rightarrow>
          (case positions (str ''POS_SIDER'') of
             None \<Rightarrow> Returned db
           | Some offset \<Rightarrow>
               (case parse_pos_sider env file offset of
                  Inl e \<Rightarrow> Raised e db
                | Inr sider_data \<Rightarrow>
                    (case get_website_id db (website_name_of filename) of
                       Inl e \<Rightarrow> Raised e db
                     | Inr website_id \<Rightarrow>
                         (case year_of env filename of
                            None \<Rightarrow> Raised ValueError db
                          | Some year \<Rightarrow>
                              (case month_of env filename of
                                 None \<Rightarrow> Raised ValueError db
                               | Some month \<Rightarrow>
                                   Returned
                                     (update_file_tracking
                                        (merge_sider_data db website_id server_id
                                           year month sider_data)
                                        filename server_id last_mod now)))))))"

text \<open>
  Lines 151 to 157, then \<open>ingest\<close>. Line 152 is
  \<open>datetime.fromtimestamp(os.path.getmtime(file_path)).replace(microsecond=0)\<close>.
\<close>

definition process_file ::
  "env \<Rightarrow> world \<Rightarrow> database \<Rightarrow> pystr \<Rightarrow> nat \<Rightarrow> bool \<Rightarrow> outcome" where
  "process_file env world db file_path server_id forced =
     (let filename = basename file_path in
      case file_at world file_path of
        None \<Rightarrow> Raised FileNotFoundError db
      | Some f \<Rightarrow>
          (case fromtimestamp world (mtime f) of
             Inl e \<Rightarrow> Raised e db
           | Inr t \<Rightarrow>
               let last_mod = t\<lparr>microsecond := 0\<rparr> in
               if truthy (has_file_been_processed db filename server_id last_mod forced)
               then Returned db
               else ingest env db filename server_id last_mod
                      ((clock world file_path)\<lparr>microsecond := 0\<rparr>) (content f)))"

section \<open>The run\<close>

text \<open>The command line: an option that was not given is \<open>None\<close>. Python reads
  \<open>if args.server:\<close> as false for \<open>None\<close> and for the empty string.\<close>

record args =
  arg_server :: "pystr option"
  arg_file :: "pystr option"
  arg_force :: bool
  arg_website :: "pystr option"

fun given :: "pystr option \<Rightarrow> bool" where
  "given None = False"
| "given (Some s) = (s \<noteq> [])"

fun value_of :: "pystr option \<Rightarrow> pystr" where
  "value_of None = []"
| "value_of (Some s) = s"

definition directories :: "pystr list" where
  "directories = [str ''/var/lib/awstats'',
                  str ''/home/private/server_stats/frankfurt'',
                  str ''/home/private/server_stats/saopaulo'',
                  str ''/home/private/server_stats/singapore'']"

subsection \<open>The statements of the forced reset\<close>

text \<open>Lines 236 to 240: the stats joined to a URL of the website.\<close>

definition delete_stats_of_website :: "database \<Rightarrow> nat \<Rightarrow> database" where
  "delete_stats_of_website db website_id =
     db\<lparr>website_url_stats :=
          filter (\<lambda>ws. \<not> list_ex (\<lambda>wu. ws_website_url_id ws = wu_id wu
                                        \<and> wu_website_id wu = website_id) (website_url db))
                 (website_url_stats db)\<rparr>"

text \<open>Lines 242 to 246 and 299 to 303: the URLs of the website that no stats row joins.\<close>

definition delete_unused_urls_of_website :: "database \<Rightarrow> nat \<Rightarrow> database" where
  "delete_unused_urls_of_website db website_id =
     db\<lparr>website_url :=
          filter (\<lambda>wu. \<not> (wu_website_id wu = website_id
                           \<and> \<not> list_ex (\<lambda>ws. wu_id wu = ws_website_url_id ws)
                                        (website_url_stats db)))
                 (website_url db)\<rparr>"

text \<open>Lines 254 to 257.\<close>

definition delete_stats_of_server :: "database \<Rightarrow> nat \<Rightarrow> database" where
  "delete_stats_of_server db server_id =
     db\<lparr>website_url_stats := filter (\<lambda>ws. ws_server_id ws \<noteq> server_id) (website_url_stats db)\<rparr>"

text \<open>Lines 259 to 263.\<close>

definition delete_unused_urls :: "database \<Rightarrow> database" where
  "delete_unused_urls db =
     db\<lparr>website_url :=
          filter (\<lambda>wu. list_ex (\<lambda>ws. wu_id wu = ws_website_url_id ws) (website_url_stats db))
                 (website_url db)\<rparr>"

text \<open>Lines 293 to 297.\<close>

definition delete_stats_of_month :: "database \<Rightarrow> nat \<Rightarrow> int \<Rightarrow> int \<Rightarrow> database" where
  "delete_stats_of_month db website_id year month =
     db\<lparr>website_url_stats :=
          filter (\<lambda>ws. \<not> (list_ex (\<lambda>wu. ws_website_url_id ws = wu_id wu
                                          \<and> wu_website_id wu = website_id) (website_url db)
                           \<and> ws_year ws = year \<and> ws_month ws = month))
                 (website_url_stats db)\<rparr>"

text \<open>Lines 306 and 307.\<close>

definition delete_everything :: "database \<Rightarrow> database" where
  "delete_everything db = db\<lparr>website_url_stats := [], website_url := []\<rparr>"

subsection \<open>The file name under \<open>--force --file\<close>\<close>

text \<open>
  \<open>re.match(r'awstats(\d{2})(\d{4})', s)\<close>: the two groups when \<open>s\<close> starts with
  \<open>awstats\<close> and six decimal digits.
\<close>

definition match_awstats :: "env \<Rightarrow> pystr \<Rightarrow> (pystr \<times> pystr) option" where
  "match_awstats env s =
     (if startswith s (str ''awstats'') \<and> 13 \<le> length s
         \<and> list_all (\<lambda>c. decimal env c \<noteq> None) (take 6 (drop 7 s))
      then Some (take 2 (drop 7 s), take 4 (drop 9 s))
      else None)"

text \<open>
  Lines 266 to 283: \<open>Inl None\<close> is the \<open>return\<close> after a message, \<open>Inl (Some e)\<close> an
  exception, \<open>Inr\<close> the website name, the year and the month.
\<close>

definition forced_file_name ::
  "env \<Rightarrow> pystr \<Rightarrow> error option + (pystr \<times> int \<times> int)" where
  "forced_file_name env filename =
     (let filename_without_extension = take (length filename - 4) filename;
          parts = split_on 0x2E filename_without_extension
      in if length parts < 2 then Inl None
         else
           let website_name = join 0x2E (tl parts) in
           case match_awstats env filename_without_extension of
             None \<Rightarrow> Inl None
           | Some (month_str, year_str) \<Rightarrow>
               (case py_int env month_str of
                  None \<Rightarrow> Inl (Some ValueError)
                | Some month \<Rightarrow>
                    (case py_int env year_str of
                       None \<Rightarrow> Inl (Some ValueError)
                     | Some year \<Rightarrow> Inr (website_name, year, month))))"

subsection \<open>The forced reset, lines 225 to 307\<close>

text \<open>
  Each scope either stops the run (\<open>Inl\<close>: a \<open>return\<close> or an exception) or hands the
  database on (\<open>Inr\<close>). The script defines no \<open>get_server_id_from_name\<close>: line 249
  raises NameError.
\<close>

definition reset_website :: "args \<Rightarrow> database \<Rightarrow> outcome + database" where
  "reset_website args db =
     (if given (arg_website args) then
        (case find (\<lambda>w. w_name w = value_of (arg_website args)) (websites db) of
           None \<Rightarrow> Inl (Returned db)
         | Some result \<Rightarrow>
             Inr (delete_unused_urls_of_website (delete_stats_of_website db (w_id result))
                    (w_id result)))
      else Inr db)"

definition reset_server :: "args \<Rightarrow> database \<Rightarrow> outcome + database" where
  "reset_server args db =
     (if given (arg_server args) then Inl (Raised NameError db) else Inr db)"

definition reset_file :: "env \<Rightarrow> args \<Rightarrow> database \<Rightarrow> outcome + database" where
  "reset_file env args db =
     (if given (arg_file args) then
        (case forced_file_name env (value_of (arg_file args)) of
           Inl None \<Rightarrow> Inl (Returned db)
         | Inl (Some e) \<Rightarrow> Inl (Raised e db)
         | Inr (website_name, year, month) \<Rightarrow>
             (case find (\<lambda>w. w_name w = website_name) (websites db) of
                None \<Rightarrow> Inl (Returned db)
              | Some result \<Rightarrow>
                  Inr (delete_unused_urls_of_website
                         (delete_stats_of_month db (w_id result) year month) (w_id result))))
      else Inr db)"

definition reset_all :: "args \<Rightarrow> database \<Rightarrow> outcome + database" where
  "reset_all args db =
     (if \<not> given (arg_website args) \<and> \<not> given (arg_server args) \<and> \<not> given (arg_file args)
      then Inr (delete_everything db) else Inr db)"

definition forced_reset :: "env \<Rightarrow> args \<Rightarrow> database \<Rightarrow> outcome + database" where
  "forced_reset env args db =
     (case reset_website args db of
        Inl out \<Rightarrow> Inl out
      | Inr db1 \<Rightarrow>
          (case reset_server args db1 of
             Inl out \<Rightarrow> Inl out
           | Inr db2 \<Rightarrow>
               (case reset_file env args db2 of
                  Inl out \<Rightarrow> Inl out
                | Inr db3 \<Rightarrow> reset_all args db3)))"

subsection \<open>The loops of lines 309 to 330\<close>

text \<open>The inner loop over \<open>os.listdir(directory)\<close>.\<close>

fun process_listing ::
  "env \<Rightarrow> world \<Rightarrow> args \<Rightarrow> pystr \<Rightarrow> nat \<Rightarrow> pystr list \<Rightarrow> database \<Rightarrow> outcome" where
  "process_listing env world args directory server_id [] db = Returned db"
| "process_listing env world args directory server_id (filename # rest) db =
     (if endswith filename (str ''.txt'') \<and> contains filename (str ''awstats'') then
        (if given (arg_website args)
            \<and> drop (13 + 1) (take (length filename - 4) filename) \<noteq> value_of (arg_website args)
         then process_listing env world args directory server_id rest db
         else
           (case process_file env world db (path_join directory filename) server_id
                   (arg_force args) of
              Raised e db1 \<Rightarrow> Raised e db1
            | Returned db1 \<Rightarrow> process_listing env world args directory server_id rest db1
            | Committed db1 \<Rightarrow> process_listing env world args directory server_id rest db1))
      else process_listing env world args directory server_id rest db)"

text \<open>The outer loop over the directories.\<close>

fun process_directories ::
  "env \<Rightarrow> world \<Rightarrow> args \<Rightarrow> pystr list \<Rightarrow> database \<Rightarrow> outcome" where
  "process_directories env world args [] db = Returned db"
| "process_directories env world args (directory # rest) db =
     (case get_server_id directory of
        None \<Rightarrow> process_directories env world args rest db
      | Some server_id \<Rightarrow>
          (case
             (if given (arg_file args) then
                (let file_path = path_join directory (value_of (arg_file args)) in
                 if file_at world file_path \<noteq> None
                 then process_file env world db file_path server_id (arg_force args)
                 else Returned db)
              else
                (case listdir world directory of
                   None \<Rightarrow> Raised FileNotFoundError db
                 | Some names \<Rightarrow> process_listing env world args directory server_id names db))
           of
             Raised e db1 \<Rightarrow> Raised e db1
           | Returned db1 \<Rightarrow> process_directories env world args rest db1
           | Committed db1 \<Rightarrow> process_directories env world args rest db1))"

text \<open>\<open>main\<close> (line 189), from the parsed arguments on.\<close>

definition main :: "env \<Rightarrow> world \<Rightarrow> args \<Rightarrow> database \<Rightarrow> outcome" where
  "main env world args db =
     (let dirs = (if given (arg_server args)
                  then filter (\<lambda>dir. contains dir (value_of (arg_server args))) directories
                  else directories)
      in if given (arg_server args) \<and> dirs = [] then Returned db
         else if given (arg_website args)
                 \<and> find (\<lambda>w. w_name w = value_of (arg_website args)) (websites db) = None
         then Returned db
         else
           (case (if arg_force args then forced_reset env args db else Inr db) of
              Inl out \<Rightarrow> out
            | Inr db1 \<Rightarrow>
                (case process_directories env world args dirs db1 of
                   Raised e db2 \<Rightarrow> Raised e db2
                 | Returned db2 \<Rightarrow> Committed db2
                 | Committed db2 \<Rightarrow> Committed db2)))"

section \<open>Example values\<close>

text \<open>Concrete inputs on which the properties below are exercised.\<close>

definition example_env :: env where
  "example_env = \<lparr>ignore_patterns = [str ''ignored/''], nonascii_decimal = (\<lambda>c. None),
                   int_max_str_digits = 4300, max_file_offset = 2 ^ 44 - 4096\<rparr>"

definition example_db :: database where
  "example_db =
     \<lparr>websites = [\<lparr>w_id = 1, w_name = str ''example.com''\<rparr>],
      website_url = [\<lparr>wu_id = 1, wu_website_id = 1, wu_url = str ''Some Page''\<rparr>,
                     \<lparr>wu_id = 2, wu_website_id = 1, wu_url = str ''Orphan''\<rparr>],
      website_url_stats = [\<lparr>ws_website_url_id = 1, ws_server_id = 2, ws_year = 2024, ws_month = 3,
                             hits = 10, entry_count = 4, exit_count = 5\<rparr>],
      file_tracking = [\<lparr>ft_filename = str ''awstats032024.example.com.txt'', ft_server_id = 2,
                         last_modified = \<lparr>seconds = 1000, microsecond = 0\<rparr>,
                         processed_date = \<lparr>seconds = 2000, microsecond = 0\<rparr>\<rparr>],
      website_url_autoinc = 3\<rparr>"

definition example_data :: url_data where
  "example_data = \<lparr>url = str ''Some Page'', pages = 7, bandwidth = 99, entry = 1, exit = 2\<rparr>"

definition example_path :: pystr where
  "example_path = str ''/var/lib/awstats/awstats032024.example.com.txt''"

definition example_filename :: pystr where
  "example_filename = str ''awstats032024.example.com.txt''"

text \<open>
  A world with one file in the first directory, last modified at the time \<open>t\<close>; the
  local time is the second since the epoch itself.
\<close>

definition example_world :: "rat \<Rightarrow> string \<Rightarrow> world" where
  "example_world t bytes =
     \<lparr>listdir = (\<lambda>d. if d = str ''/var/lib/awstats'' then Some [example_filename] else Some []),
      file_at = (\<lambda>p. if p = example_path then Some \<lparr>mtime = t, content = bytes\<rparr> else None),
      clock = (\<lambda>p. \<lparr>seconds = 3000, microsecond = 5\<rparr>),
      localtime = Inr\<rparr>"

text \<open>A report section and a report file whose index points at it (offset 33).\<close>

definition example_section :: string where
  "example_section =
     ''BEGIN_SIDER 3'' @ [CHR 0x0A] @ ''/wiki/Some%20Page 7 99 1 2'' @ [CHR 0x0A]
     @ ''/ignored/x 1 1 1 1'' @ [CHR 0x0A] @ ''END_SIDER'' @ [CHR 0x0A]
     @ ''/after 1 1 1 1'' @ [CHR 0x0A]"

definition example_file :: string where
  "example_file =
     ''BEGIN_MAP 1'' @ [CHR 0x0A] @ ''POS_SIDER 33'' @ [CHR 0x0A] @ ''END_MAP'' @ [CHR 0x0A]
     @ example_section"

text \<open>The database after the example file has been processed for server 1.\<close>

definition example_db_after :: database where
  "example_db_after =
     example_db
       \<lparr>website_url_stats := website_url_stats example_db @
          [\<lparr>ws_website_url_id = 1, ws_server_id = 1, ws_year = 2024, ws_month = 3,
            hits = 7, entry_count = 1, exit_count = 2\<rparr>],
        file_tracking := file_tracking example_db @
          [\<lparr>ft_filename = example_filename, ft_server_id = 1,
            last_modified = \<lparr>seconds = 1000, microsecond = 0\<rparr>,
            processed_date = \<lparr>seconds = 3000, microsecond = 0\<rparr>\<rparr>]\<rparr>"

text \<open>
  The database after the example file has been processed again for server 2, whose
  fingerprint and stats row the example database holds, with a modification time in
  the second \<open>s\<close>.
\<close>

definition example_db_reprocessed :: "int \<Rightarrow> database" where
  "example_db_reprocessed s =
     example_db
       \<lparr>website_url_stats :=
          [\<lparr>ws_website_url_id = 1, ws_server_id = 2, ws_year = 2024, ws_month = 3,
            hits = 17, entry_count = 5, exit_count = 7\<rparr>],
        file_tracking :=
          [\<lparr>ft_filename = example_filename, ft_server_id = 2,
            last_modified = \<lparr>seconds = s, microsecond = 0\<rparr>,
            processed_date = \<lparr>seconds = 3000, microsecond = 0\<rparr>\<rparr>]\<rparr>"

text \<open>
  A file whose record line has a counter that is no integer, a file with no index, and
  worlds in which one of them is listed before the example file.
\<close>

definition bad_file :: string where
  "bad_file =
     ''BEGIN_MAP 1'' @ [CHR 0x0A] @ ''POS_SIDER 33'' @ [CHR 0x0A] @ ''END_MAP'' @ [CHR 0x0A]
     @ ''BEGIN_SIDER 1'' @ [CHR 0x0A] @ ''/page 1 2 3 y'' @ [CHR 0x0A] @ ''END_SIDER'' @ [CHR 0x0A]"

definition other_filename :: pystr where
  "other_filename = str ''awstats022024.example.com.txt''"

definition other_path :: pystr where
  "other_path = str ''/var/lib/awstats/awstats022024.example.com.txt''"

definition two_file_world :: "string \<Rightarrow> world" where
  "two_file_world first_bytes =
     \<lparr>listdir = (\<lambda>d. if d = str ''/var/lib/awstats''
                      then Some [other_filename, example_filename] else Some []),
      file_at = (\<lambda>p. if p = other_path then Some \<lparr>mtime = 1000, content = first_bytes\<rparr>
                      else if p = example_path then Some \<lparr>mtime = 1000, content = example_file\<rparr>
                      else None),
      clock = (\<lambda>p. \<lparr>seconds = 3000, microsecond = 5\<rparr>),
      localtime = Inr\<rparr>"

definition plain_args :: args where
  "plain_args = \<lparr>arg_server = None, arg_file = None, arg_force = False, arg_website = None\<rparr>"

text \<open>
  \<open>--website example.com\<close>, \<open>--force --file awstats022024.example.com.txt\<close>, and
  \<open>--force\<close>.
\<close>

definition website_args :: args where
  "website_args = \<lparr>arg_server = None, arg_file = None, arg_force = False,
                    arg_website = Some (str ''example.com'')\<rparr>"

definition forced_file_args :: args where
  "forced_file_args = \<lparr>arg_server = None, arg_file = Some other_filename, arg_force = True,
                        arg_website = None\<rparr>"

definition force_args :: args where
  "force_args = \<lparr>arg_server = None, arg_file = None, arg_force = True, arg_website = None\<rparr>"

text \<open>
  The example database after the forced reset of \<open>--force --file\<close> for that file: no
  stats row is of February 2024, and the sweep removes the URL that has no stats row.
\<close>

definition example_db_swept :: database where
  "example_db_swept =
     example_db\<lparr>website_url := [\<lparr>wu_id = 1, wu_website_id = 1, wu_url = str ''Some Page''\<rparr>]\<rparr>"

text \<open>The example database after the forced reset of \<open>--force\<close> alone.\<close>

definition example_db_emptied :: database where
  "example_db_emptied = example_db\<lparr>website_url_stats := [], website_url := []\<rparr>"

text \<open>\<open>--force --server frankfurt\<close>.\<close>

definition server_args :: args where
  "server_args = \<lparr>arg_server = Some (str ''frankfurt''), arg_file = None, arg_force = True,
                   arg_website = None\<rparr>"

section \<open>Notions used in the statements\<close>

text \<open>The database the forced reset leaves behind, however it ends.\<close>

definition reset_state :: "outcome + database \<Rightarrow> database" where
  "reset_state r = (case r of Inl out \<Rightarrow> state_of out | Inr db \<Rightarrow> db)"

text \<open>Two states agree on everything but \<open>website_url\<close> and \<open>website_url_stats\<close>.\<close>

definition same_frame :: "database \<Rightarrow> database \<Rightarrow> bool" where
  "same_frame db d = (file_tracking d = file_tracking db \<and> websites d = websites db
     \<and> website_url_autoinc d = website_url_autoinc db)"

text \<open>A URL row that at least one stats row references.\<close>

definition referenced :: "database \<Rightarrow> website_url_row \<Rightarrow> bool" where
  "referenced db wu = list_ex (\<lambda>ws. wu_id wu = ws_website_url_id ws) (website_url_stats db)"

text \<open>
  The decoder in the words of its specification. A line, decoded and stripped, is
  accepted when it is neither a comment nor the start marker, has exactly five fields
  and its stored URL is not ignored. The stored URL is the first field without one
  leading slash, without one \<open>wiki/\<close> prefix, percent-decoded. The section is the lines
  from the offset up to the first one that starts with \<open>END_SIDER\<close>.
\<close>

definition remove_prefix :: "pystr \<Rightarrow> pystr \<Rightarrow> pystr" where
  "remove_prefix p s = (if startswith s p then drop (length p) s else s)"

definition stored_url :: "pystr \<Rightarrow> pystr" where
  "stored_url field = unquote (remove_prefix (str ''wiki/'') (remove_prefix (str ''/'') field))"

definition text_of :: "string \<Rightarrow> pystr option" where
  "text_of raw = map_option strip (decode_utf8 raw)"

definition accepted :: "env \<Rightarrow> pystr \<Rightarrow> bool" where
  "accepted env line =
     (\<not> startswith line (str ''#'') \<and> \<not> startswith line (str ''BEGIN_SIDER'')
      \<and> length (split line) = 5 \<and> \<not> should_ignore_url env (stored_url (hd (split line))))"

definition counters :: "env \<Rightarrow> pystr \<Rightarrow> int list option" where
  "counters env line = those (map (py_int env) (tl (split line)))"

definition record_of :: "env \<Rightarrow> pystr \<Rightarrow> url_data option" where
  "record_of env line =
     (case counters env line of
        Some [p, b, e, x] \<Rightarrow>
          Some \<lparr>url = stored_url (hd (split line)), pages = p, bandwidth = b, entry = e, exit = x\<rparr>
      | _ \<Rightarrow> None)"

text \<open>
  An offset that \<open>seek\<close> accepts: not negative, within the signed 64-bit file offset and
  at most the largest offset of the file system.
\<close>

definition seekable :: "env \<Rightarrow> int \<Rightarrow> bool" where
  "seekable env offset = (0 \<le> offset \<and> offset < 2 ^ 63 \<and> offset \<le> int (max_file_offset env))"

definition is_end :: "string \<Rightarrow> bool" where
  "is_end raw = (case text_of raw of None \<Rightarrow> False | Some line \<Rightarrow> startswith line (str ''END_SIDER''))"

definition sider_lines :: "string \<Rightarrow> int \<Rightarrow> string list" where
  "sider_lines file offset = takeWhile (\<lambda>raw. \<not> is_end raw) (readlines (drop (nat offset) file))"

text \<open>A line the decoder can read: valid UTF-8, and integer counters when accepted.\<close>

definition line_ok :: "env \<Rightarrow> string \<Rightarrow> bool" where
  "line_ok env raw =
     (case text_of raw of
        None \<Rightarrow> False
      | Some line \<Rightarrow> \<not> accepted env line \<or> counters env line \<noteq> None)"

definition line_record :: "env \<Rightarrow> string \<Rightarrow> url_data option" where
  "line_record env raw =
     (case text_of raw of
        None \<Rightarrow> None
      | Some line \<Rightarrow> if accepted env line then record_of env line else None)"

text \<open>
  What a run may add: every URL row of \<open>db'\<close> is a row of \<open>db\<close> or has a URL that is not
  ignored, and every stats row of \<open>db'\<close> is a row of \<open>db\<close> or belongs to a URL row whose
  URL is not ignored.
\<close>

definition fresh_rows :: "env \<Rightarrow> database \<Rightarrow> database \<Rightarrow> bool" where
  "fresh_rows env db db' =
     ((\<forall>wu \<in> set (website_url db'). wu \<in> set (website_url db) \<or> \<not> should_ignore_url env (wu_url wu))
      \<and> (\<forall>ws \<in> set (website_url_stats db').
            ws \<in> set (website_url_stats db)
            \<or> (\<exists>wu \<in> set (website_url db').
                  wu_id wu = ws_website_url_id ws \<and> \<not> should_ignore_url env (wu_url wu))))"

text \<open>
  The run in the words of its loops. \<open>selected_directories\<close> are the directories that
  \<open>main\<close> loops over (lines 198 to 205), \<open>before_loops\<close> is what \<open>main\<close> does before the
  loops (the checks of lines 203 to 223 and the forced reset): it ends the run or hands
  the database on. \<open>selected\<close> is the filter of lines 319 to 324 on a listed name.
  \<open>continue_with\<close> is sequencing: an exception ends the run, a return hands the database
  to what follows. \<open>commit\<close> is line 332, reached when no exception was raised.
\<close>

definition selected_directories :: "args \<Rightarrow> pystr list" where
  "selected_directories args =
     (if given (arg_server args)
      then filter (\<lambda>dir. contains dir (value_of (arg_server args))) directories
      else directories)"

definition before_loops :: "env \<Rightarrow> args \<Rightarrow> database \<Rightarrow> outcome + database" where
  "before_loops env args db =
     (if given (arg_server args) \<and> selected_directories args = [] then Inl (Returned db)
      else if given (arg_website args)
              \<and> find (\<lambda>w. w_name w = value_of (arg_website args)) (websites db) = None
      then Inl (Returned db)
      else if arg_force args then forced_reset env args db
      else Inr db)"

definition selected :: "args \<Rightarrow> pystr \<Rightarrow> bool" where
  "selected args filename =
     (endswith filename (str ''.txt'') \<and> contains filename (str ''awstats'')
      \<and> (given (arg_website args) \<longrightarrow>
           drop (13 + 1) (take (length filename - 4) filename) = value_of (arg_website args)))"

definition continue_with :: "outcome \<Rightarrow> (database \<Rightarrow> outcome) \<Rightarrow> outcome" where
  "continue_with out k =
     (case out of Raised e d \<Rightarrow> Raised e d | Returned d \<Rightarrow> k d | Committed d \<Rightarrow> k d)"

definition commit :: "outcome \<Rightarrow> outcome" where
  "commit out =
     (case out of Raised e d \<Rightarrow> Raised e d | Returned d \<Rightarrow> Committed d | Committed d \<Rightarrow> Committed d)"

section \<open>Properties\<close>

subsection \<open>Lists as tables\<close>

lemma list_ex_find: "list_ex P xs \<longleftrightarrow> find P xs \<noteq> None"
  by (induction xs) auto

lemma find_map_if:
  "(\<And>x. P x \<Longrightarrow> P (f x)) \<Longrightarrow> find P (map (\<lambda>x. if P x then f x else x) xs) = map_option f (find P xs)"
  by (induction xs) auto

lemma filter_map_if:
  "(\<And>x. P x \<Longrightarrow> P (f x)) \<Longrightarrow>
     filter (\<lambda>x. \<not> P x) (map (\<lambda>x. if P x then f x else x) xs) = filter (\<lambda>x. \<not> P x) xs"
  by (induction xs) auto

lemma find_append_single:
  "find P xs = None \<Longrightarrow> find P (xs @ [x]) = (if P x then Some x else None)"
  by (induction xs) (auto split: if_splits)

lemma find_distinct_key:
  "distinct (map key xs) \<Longrightarrow> (find (\<lambda>x. key x = k) xs = Some r) = (r \<in> set xs \<and> key r = k)"
  by (induction xs) (auto simp: rev_image_eqI)

text \<open>The definitions that evaluating the parsers on a concrete input unfolds.\<close>

lemmas eval_defs = decode_utf8_def need_def between_def trail_def lead_base_def
      strip_def strip_with_def isspace_def startswith_def py_int_def int_space_def decimal_def
      too_many_digits_def unquote_def hexval_def decode_utf8_replace_def should_ignore_url_def

subsection \<open>The second of a modification time\<close>

lemma round_half_even_ge:
  assumes "even m"
  shows "m \<le> round_half_even x \<longleftrightarrow> of_int m - 1 / 2 \<le> x"
proof -
  define n where "n = \<lfloor>x\<rfloor>"
  have b: "of_int n \<le> x" "x < of_int n + 1"
    by (simp_all add: n_def) linarith
  have lt: "m \<le> n \<longleftrightarrow> (of_int m :: rat) \<le> of_int n" by simp
  have lt1: "m \<le> n + 1 \<longleftrightarrow> (of_int m :: rat) \<le> of_int n + 1"
    using of_int_le_iff[of m "n + 1", where ?'a = rat] by simp
  consider (lo) "x - of_int n < 1 / 2" | (hi) "1 / 2 < x - of_int n" | (tie) "x - of_int n = 1 / 2"
    by fastforce
  then show ?thesis
  proof cases
    case lo
    have "m \<le> n \<longleftrightarrow> of_int m - 1 / 2 \<le> x"
    proof
      assume "m \<le> n" then show "of_int m - 1 / 2 \<le> x" using b lt by linarith
    next
      assume "of_int m - 1 / 2 \<le> x"
      then have "(of_int m :: rat) < of_int n + 1" using lo by linarith
      then have "m < n + 1" using of_int_less_iff[of m "n + 1", where ?'a = rat] by simp
      then show "m \<le> n" by simp
    qed
    with lo show ?thesis unfolding round_half_even_def Let_def n_def[symmetric] by simp
  next
    case hi
    have "m \<le> n + 1 \<longleftrightarrow> of_int m - 1 / 2 \<le> x"
    proof
      assume "m \<le> n + 1" then show "of_int m - 1 / 2 \<le> x" using hi lt1 by linarith
    next
      assume "of_int m - 1 / 2 \<le> x"
      then have "(of_int m :: rat) < of_int n + 2" using b by linarith
      then have "m < n + 2" using of_int_less_iff[of m "n + 2", where ?'a = rat] by simp
      then show "m \<le> n + 1" by simp
    qed
    with hi show ?thesis unfolding round_half_even_def Let_def n_def[symmetric] by simp
  next
    case tie
    have r: "round_half_even x = (if even n then n else n + 1)"
      unfolding round_half_even_def Let_def n_def[symmetric] using tie by simp
    have "of_int m - 1 / 2 \<le> x \<longleftrightarrow> (of_int m :: rat) \<le> of_int n + 1"
      using tie by linarith
    then have e: "of_int m - 1 / 2 \<le> x \<longleftrightarrow> m \<le> n + 1" using lt1 by simp
    show ?thesis
    proof (cases "even n")
      case True
      then have "m \<noteq> n + 1" using assms by auto
      then show ?thesis using r e True by auto
    next
      case False
      then show ?thesis using r e by auto
    qed
  qed
qed

text \<open>
  The second that \<open>fromtimestamp\<close> converts is the one that holds the time half a
  microsecond later: a time less than half a microsecond before a full second counts
  as that second.
\<close>

lemma timestamp_second: "fst (timestamp_parts t) = \<lfloor>t + 1 / 2000000\<rfloor>"
proof (cases "0 \<le> t")
  case True
  define n where "n = \<lfloor>t\<rfloor>"
  define us where "us = round_half_even ((t - of_int n) * 1000000)"
  have b: "of_int n \<le> t" "t < of_int n + 1"
    by (simp_all add: n_def) linarith
  have carry: "1000000 \<le> us \<longleftrightarrow> of_int n + 1 \<le> t + 1 / 2000000"
    using round_half_even_ge[of 1000000 "(t - of_int n) * 1000000"] by (simp add: us_def) linarith
  have nonneg: "\<not> us < 0"
    using round_half_even_ge[of 0 "(t - of_int n) * 1000000"] b by (simp add: us_def)
  have ip: "(if 0 \<le> t then \<lfloor>t\<rfloor> else \<lceil>t\<rceil>) = n"
    using True by (simp add: n_def)
  have parts: "fst (timestamp_parts t) = (if 1000000 \<le> us then n + 1 else n)"
    unfolding timestamp_parts_def Let_def ip us_def[symmetric] using nonneg by simp
  show ?thesis
  proof (cases "1000000 \<le> us")
    case c: True
    have "\<lfloor>t + 1 / 2000000\<rfloor> = n + 1"
      using c carry b by (intro floor_unique) (simp, linarith)
    with c parts show ?thesis by simp
  next
    case c: False
    have "\<lfloor>t + 1 / 2000000\<rfloor> = n"
      using c carry b by (intro floor_unique) (linarith, linarith)
    with c parts show ?thesis by simp
  qed
next
  case False
  define n where "n = \<lceil>t\<rceil>"
  define us where "us = round_half_even ((t - of_int n) * 1000000)"
  have b: "t \<le> of_int n" "of_int n - 1 < t"
    by (simp_all add: n_def) linarith
  have borrow: "us < 0 \<longleftrightarrow> t + 1 / 2000000 < of_int n"
    using round_half_even_ge[of 0 "(t - of_int n) * 1000000"] by (simp add: us_def) linarith
  have small: "\<not> 1000000 \<le> us"
    using round_half_even_ge[of 1000000 "(t - of_int n) * 1000000"] b by (simp add: us_def)
  have ip: "(if 0 \<le> t then \<lfloor>t\<rfloor> else \<lceil>t\<rceil>) = n"
    using False by (simp add: n_def)
  have parts: "fst (timestamp_parts t) = (if us < 0 then n - 1 else n)"
    unfolding timestamp_parts_def Let_def ip us_def[symmetric] using small by simp
  show ?thesis
  proof (cases "us < 0")
    case c: True
    have lo: "of_int (n - 1) \<le> t + 1 / 2000000" using b by simp
    have hi: "t + 1 / 2000000 < of_int (n - 1) + 1" using c borrow by simp
    have "\<lfloor>t + 1 / 2000000\<rfloor> = n - 1"
      using lo hi by (rule floor_unique)
    with c parts show ?thesis by simp
  next
    case c: False
    have "\<lfloor>t + 1 / 2000000\<rfloor> = n"
      using c borrow b by (intro floor_unique) (linarith, linarith)
    with c parts show ?thesis by simp
  qed
qed

text \<open>Line 152: the conversion, then \<open>replace(microsecond=0)\<close>.\<close>

lemma fromtimestamp_second:
  "(case fromtimestamp world t of Inl e \<Rightarrow> Inl e | Inr d \<Rightarrow> Inr (d\<lparr>microsecond := 0\<rparr>))
     = (case localtime world \<lfloor>t + 1 / 2000000\<rfloor> of
          Inl e \<Rightarrow> Inl e
        | Inr s \<Rightarrow> Inr \<lparr>seconds = s, microsecond = 0\<rparr>)"
  using timestamp_second[of t]
  by (cases "timestamp_parts t") (simp add: fromtimestamp_def split: sum.splits)

lemma fromtimestamp_Inr:
  "localtime world \<lfloor>t + 1 / 2000000\<rfloor> = Inr s \<Longrightarrow>
     \<exists>d. fromtimestamp world t = Inr d \<and> d\<lparr>microsecond := 0\<rparr> = \<lparr>seconds = s, microsecond = 0\<rparr>"
  using fromtimestamp_second[of world t] by (simp split: sum.splits)

lemma fromtimestamp_Inl:
  "localtime world \<lfloor>t + 1 / 2000000\<rfloor> = Inl e \<Longrightarrow> fromtimestamp world t = Inl e"
  using fromtimestamp_second[of world t] by (simp split: sum.splits)

lemma process_file_gate:
  assumes "file_at world p = Some f" "fromtimestamp world (mtime f) = Inr t"
  shows "process_file env world db p sid forced
     = (if truthy (has_file_been_processed db (basename p) sid (t\<lparr>microsecond := 0\<rparr>) forced)
        then Returned db
        else ingest env db (basename p) sid (t\<lparr>microsecond := 0\<rparr>)
               ((clock world p)\<lparr>microsecond := 0\<rparr>) (content f))"
  using assms by (simp add: process_file_def)

lemma process_file_at_second:
  assumes "file_at world p = Some f" "localtime world \<lfloor>mtime f + 1 / 2000000\<rfloor> = Inr s"
  shows "process_file env world db p sid forced
     = (if truthy (has_file_been_processed db (basename p) sid \<lparr>seconds = s, microsecond = 0\<rparr> forced)
        then Returned db
        else ingest env db (basename p) sid \<lparr>seconds = s, microsecond = 0\<rparr>
               ((clock world p)\<lparr>microsecond := 0\<rparr>) (content f))"
proof -
  obtain d where d: "fromtimestamp world (mtime f) = Inr d"
    "d\<lparr>microsecond := 0\<rparr> = \<lparr>seconds = s, microsecond = 0\<rparr>"
    using fromtimestamp_Inr[OF assms(2)] by blast
  show ?thesis unfolding process_file_gate[OF assms(1) d(1)] d(2) by simp
qed

lemma process_file_no_datetime:
  assumes "file_at world p = Some f" "fromtimestamp world (mtime f) = Inl e"
  shows "process_file env world db p sid forced = Raised e db"
  using assms by (simp add: process_file_def)

text \<open>In the example worlds the local time is the second since the epoch.\<close>

lemma example_seconds:
  "\<lfloor>(1000 :: rat) + 1 / 2000000\<rfloor> = 1000"
  "\<lfloor>(1000 :: rat) + 250 / 1000000 + 1 / 2000000\<rfloor> = 1000"
  "\<lfloor>(1000 :: rat) + 2097151 / 2097152 + 1 / 2000000\<rfloor> = 1001"
  "\<lfloor>(1000 :: rat) + 2097151 / 2097152\<rfloor> = 1000"
  "\<lfloor>(1001 :: rat) + 1 / 2000000\<rfloor> = 1001"
  by (rule floor_unique; simp)+

subsection \<open>The additive merge\<close>

text \<open>
  C3. \<open>update_server_stats\<close> is an additive upsert: when no stats row has the key
  (website_url_id, server_id, year, month), a row with hits = pages, entry_count = entry
  and exit_count = exit is appended; when a row has it, pages, entry and exit are added to
  its three counters and no row is added. The rows of other keys stay as they are, the
  other tables are not written, and the record's bandwidth has no influence on the result.
\<close>

theorem update_server_stats_upsert:
  fixes db :: database and data :: url_data and wuid sid :: nat and y m :: int
  defines "db' \<equiv> update_server_stats db wuid sid y m data"
  shows "(find (\<lambda>ws. stats_key ws = (wuid, sid, y, m)) (website_url_stats db) = None \<longrightarrow>
            website_url_stats db' = website_url_stats db @
              [\<lparr>ws_website_url_id = wuid, ws_server_id = sid, ws_year = y, ws_month = m,
                hits = pages data, entry_count = entry data, exit_count = exit data\<rparr>])
       \<and> (\<forall>r. find (\<lambda>ws. stats_key ws = (wuid, sid, y, m)) (website_url_stats db) = Some r \<longrightarrow>
            find (\<lambda>ws. stats_key ws = (wuid, sid, y, m)) (website_url_stats db') =
              Some (r\<lparr>hits := hits r + pages data, entry_count := entry_count r + entry data,
                      exit_count := exit_count r + exit data\<rparr>)
            \<and> length (website_url_stats db') = length (website_url_stats db))
       \<and> filter (\<lambda>ws. stats_key ws \<noteq> (wuid, sid, y, m)) (website_url_stats db')
           = filter (\<lambda>ws. stats_key ws \<noteq> (wuid, sid, y, m)) (website_url_stats db)
       \<and> update_server_stats db wuid sid y m (data\<lparr>bandwidth := b\<rparr>) = db'
       \<and> websites db' = websites db \<and> website_url db' = website_url db
       \<and> file_tracking db' = file_tracking db \<and> website_url_autoinc db' = website_url_autoinc db"
proof (cases "find (\<lambda>ws. stats_key ws = (wuid, sid, y, m)) (website_url_stats db)")
  case None
  then have "\<not> list_ex (\<lambda>ws. stats_key ws = (wuid, sid, y, m)) (website_url_stats db)"
    by (simp add: list_ex_find)
  with None show ?thesis
    by (simp add: db'_def update_server_stats_def stats_key_def)
next
  case (Some r)
  then have ex: "list_ex (\<lambda>ws. stats_key ws = (wuid, sid, y, m)) (website_url_stats db)"
    by (simp add: list_ex_find)
  have keep: "stats_key ws = k \<Longrightarrow>
      stats_key (ws\<lparr>hits := h, entry_count := e, exit_count := x\<rparr>) = k" for ws k h e x
    by (simp add: stats_key_def)
  show ?thesis
    using Some ex
    by (simp add: db'_def update_server_stats_def find_map_if filter_map_if keep)
qed

text \<open>On the example database: one key that has a row, one that has none.\<close>

theorem update_server_stats_upsert_witness:
  "find (\<lambda>ws. stats_key ws = (1, 2, 2024, 3))
        (website_url_stats (update_server_stats example_db 1 2 2024 3 example_data))
     = Some \<lparr>ws_website_url_id = 1, ws_server_id = 2, ws_year = 2024, ws_month = 3,
              hits = 17, entry_count = 5, exit_count = 7\<rparr>
   \<and> website_url_stats (update_server_stats example_db 2 2 2024 3 example_data)
     = website_url_stats example_db @
         [\<lparr>ws_website_url_id = 2, ws_server_id = 2, ws_year = 2024, ws_month = 3,
           hits = 7, entry_count = 1, exit_count = 2\<rparr>]"
proof -
  have old: "find (\<lambda>ws. stats_key ws = (1, 2, 2024, 3)) (website_url_stats example_db)
      = Some \<lparr>ws_website_url_id = 1, ws_server_id = 2, ws_year = 2024, ws_month = 3,
               hits = 10, entry_count = 4, exit_count = 5\<rparr>"
    by (simp add: example_db_def stats_key_def)
  have new: "find (\<lambda>ws. stats_key ws = (2, 2, 2024, 3)) (website_url_stats example_db) = None"
    by (simp add: example_db_def stats_key_def)
  show ?thesis
    using update_server_stats_upsert [of 1 2 2024 3 example_db example_data 0] update_server_stats_upsert [of 2 2 2024 3 example_db example_data 0]
      old new
    by (simp add: example_data_def)
qed

subsection \<open>The record decoder\<close>

lemma normalize_url_stored: "normalize_url field = stored_url field"
  by (simp add: normalize_url_def stored_url_def remove_prefix_def Let_def)

lemma those_length: "those xs = Some ys \<Longrightarrow> length ys = length xs"
  by (induction xs arbitrary: ys) (auto split: option.splits)

lemma list_of_length_4: "length xs = 4 \<Longrightarrow> \<exists>a b c d. xs = [a, b, c, d]"
  by (auto simp: length_Suc_conv numeral_eq_Suc)

lemma counters_shape:
  assumes "length (split line) = 5" "counters env line = Some cs"
  shows "\<exists>p b e x. cs = [p, b, e, x]"
proof -
  have "length cs = 4" using those_length[of "map (py_int env) (tl (split line))" cs] assms
    by (simp add: counters_def)
  then show ?thesis by (rule list_of_length_4)
qed

lemma step_undecodable:
  "text_of raw = None \<Longrightarrow> parse_pos_sider_loop env (raw # rest) acc = Inl UnicodeDecodeError"
  by (simp add: text_of_def)

lemma step_end:
  "text_of raw = Some line \<Longrightarrow> startswith line (str ''END_SIDER'') \<Longrightarrow>
     parse_pos_sider_loop env (raw # rest) acc = Inr acc"
  by (auto simp: text_of_def)

lemma hd_fields: "length (xs :: pystr list) = 5 \<Longrightarrow> xs ! 0 = hd xs"
  by (cases xs) auto

lemma step_skip:
  assumes "text_of raw = Some line" "\<not> startswith line (str ''END_SIDER'')" "\<not> accepted env line"
  shows "parse_pos_sider_loop env (raw # rest) acc = parse_pos_sider_loop env rest acc"
proof -
  obtain t where t: "decode_utf8 raw = Some t" "line = strip t"
    using assms(1) by (auto simp: text_of_def)
  show ?thesis
  proof (cases "length (split line) = 5")
    case True
    with assms(2,3) t show ?thesis
      by (auto simp: accepted_def Let_def normalize_url_stored hd_fields)
  next
    case False
    with assms(2) t show ?thesis
      by (simp add: Let_def)
  qed
qed

lemma step_bad:
  assumes "text_of raw = Some line" "\<not> startswith line (str ''END_SIDER'')" "accepted env line"
    "counters env line = None"
  shows "parse_pos_sider_loop env (raw # rest) acc = Inl ValueError"
proof -
  obtain t where t: "decode_utf8 raw = Some t" "line = strip t"
    using assms(1) by (auto simp: text_of_def)
  have five: "length (split (strip t)) = 5" using assms(3) t by (simp add: accepted_def)
  show ?thesis using assms(2,3,4) t five
    by (simp add: accepted_def Let_def normalize_url_stored hd_fields counters_def)
qed

lemma step_record:
  assumes "text_of raw = Some line" "\<not> startswith line (str ''END_SIDER'')" "accepted env line"
    "counters env line = Some cs"
  shows "\<exists>r. record_of env line = Some r
           \<and> parse_pos_sider_loop env (raw # rest) acc = parse_pos_sider_loop env rest (acc @ [r])"
proof -
  obtain t where t: "decode_utf8 raw = Some t" "line = strip t"
    using assms(1) by (auto simp: text_of_def)
  have five: "length (split (strip t)) = 5" using assms(3) t by (simp add: accepted_def)
  obtain p b e x where cs: "cs = [p, b, e, x]"
    using counters_shape[of line env cs] assms(3,4) by (auto simp: accepted_def)
  have th: "those (map (py_int env) (tl (split (strip t)))) = Some [p, b, e, x]"
    using assms(4) cs t by (simp add: counters_def)
  show ?thesis using assms(2,3) t five cs assms(4) th
    by (simp add: accepted_def Let_def normalize_url_stored hd_fields record_of_def)
qed

lemma loop_reads_section:
  "list_all (line_ok env) (takeWhile (\<lambda>raw. \<not> is_end raw) lines) \<Longrightarrow>
     parse_pos_sider_loop env lines acc
       = Inr (acc @ List.map_filter (line_record env) (takeWhile (\<lambda>raw. \<not> is_end raw) lines))"
proof (induction lines arbitrary: acc)
  case Nil
  show ?case by simp
next
  case (Cons raw rest)
  show ?case
  proof (cases "text_of raw")
    case None
    with Cons.prems show ?thesis by (simp add: is_end_def line_ok_def)
  next
    case (Some line)
    show ?thesis
    proof (cases "startswith line (str ''END_SIDER'')")
      case True
      with Some show ?thesis
        using step_end[of raw line] by (simp add: is_end_def)
    next
      case False
      with Some have ne: "\<not> is_end raw" by (simp add: is_end_def)
      with Cons.prems have ok: "line_ok env raw"
        and rest_ok: "list_all (line_ok env) (takeWhile (\<lambda>raw. \<not> is_end raw) rest)"
        by simp_all
      show ?thesis
      proof (cases "accepted env line")
        case acc_no: False
        have "parse_pos_sider_loop env (raw # rest) acc = parse_pos_sider_loop env rest acc"
          using step_skip[OF Some False acc_no] .
        moreover have "line_record env raw = None"
          using Some acc_no by (simp add: line_record_def)
        ultimately show ?thesis
          using Cons.IH[OF rest_ok, of acc] ne by simp
      next
        case acc_yes: True
        with ok Some obtain cs where cs: "counters env line = Some cs"
          by (auto simp: line_ok_def)
        obtain r where r: "record_of env line = Some r"
          "parse_pos_sider_loop env (raw # rest) acc = parse_pos_sider_loop env rest (acc @ [r])"
          using step_record[OF Some False acc_yes cs] by blast
        have "line_record env raw = Some r"
          using Some acc_yes r(1) by (simp add: line_record_def)
        then show ?thesis
          using Cons.IH[OF rest_ok, of "acc @ [r]"] ne r(2) by simp
      qed
    qed
  qed
qed

lemma loop_fails_on_bad_line:
  "find (\<lambda>raw. \<not> line_ok env raw) (takeWhile (\<lambda>raw. \<not> is_end raw) lines) = Some bad \<Longrightarrow>
     parse_pos_sider_loop env lines acc
       = Inl (if text_of bad = None then UnicodeDecodeError else ValueError)"
proof (induction lines arbitrary: acc)
  case Nil
  then show ?case by simp
next
  case (Cons raw rest)
  show ?case
  proof (cases "text_of raw")
    case None
    then have "\<not> is_end raw" "\<not> line_ok env raw"
      by (simp_all add: is_end_def line_ok_def)
    with Cons.prems have "bad = raw" by simp
    with None show ?thesis using step_undecodable[of raw] by simp
  next
    case (Some line)
    show ?thesis
    proof (cases "startswith line (str ''END_SIDER'')")
      case True
      with Some Cons.prems show ?thesis by (simp add: is_end_def)
    next
      case False
      with Some have ne: "\<not> is_end raw" by (simp add: is_end_def)
      show ?thesis
      proof (cases "line_ok env raw")
        case ok: True
        with Cons.prems ne
        have bad: "find (\<lambda>raw. \<not> line_ok env raw) (takeWhile (\<lambda>raw. \<not> is_end raw) rest) = Some bad"
          by simp
        show ?thesis
        proof (cases "accepted env line")
          case acc_no: False
          show ?thesis
            using step_skip[OF Some False acc_no] Cons.IH[OF bad, of acc] by simp
        next
          case acc_yes: True
          with ok Some obtain cs where cs: "counters env line = Some cs"
            by (auto simp: line_ok_def)
          obtain r where
            "parse_pos_sider_loop env (raw # rest) acc = parse_pos_sider_loop env rest (acc @ [r])"
            using step_record[OF Some False acc_yes cs] by blast
          then show ?thesis using Cons.IH[OF bad, of "acc @ [r]"] by simp
        qed
      next
        case notok: False
        with Cons.prems ne have b: "bad = raw" by simp
        from notok Some have "accepted env line" "counters env line = None"
          by (simp_all add: line_ok_def)
        then show ?thesis using step_bad[OF Some False] Some b by simp
      qed
    qed
  qed
qed

lemma find_not_all: "\<not> list_all P xs \<Longrightarrow> \<exists>x. find (\<lambda>x. \<not> P x) xs = Some x"
  by (induction xs) auto

lemma loop_returns_only_on_good_lines:
  "parse_pos_sider_loop env lines acc = Inr recs \<Longrightarrow>
     list_all (line_ok env) (takeWhile (\<lambda>raw. \<not> is_end raw) lines)"
  using loop_fails_on_bad_line[of env lines _ acc]
    find_not_all[of "line_ok env" "takeWhile (\<lambda>raw. \<not> is_end raw) lines"]
  by auto

lemma seek_cases:
  "seekable env offset \<Longrightarrow> seek env file offset = Inr (drop (nat offset) file)"
  "offset < - (2 ^ 63) \<or> 2 ^ 63 \<le> offset \<Longrightarrow> seek env file offset = Inl ValueError"
  "- (2 ^ 63) \<le> offset \<Longrightarrow> offset < 2 ^ 63 \<Longrightarrow> offset < 0 \<or> int (max_file_offset env) < offset \<Longrightarrow>
     seek env file offset = Inl OSError"
  by (auto simp: seek_def seekable_def)

lemma seek_Inr: "seek env file offset = Inr rest \<Longrightarrow> rest = drop (nat offset) file"
  by (simp add: seek_def split: if_splits)

text \<open>
  C2 (as amended). The offset is one that \<open>seek\<close> accepts when it is not negative, fits
  the 64-bit file offset and is at most the largest offset of the file system. For such
  an offset: when every line of the section is valid UTF-8 and every accepted line has
  four integer counters, \<open>parse_pos_sider\<close> returns, in file order, exactly one record
  per accepted line of the section and nothing for any other line; otherwise it raises
  at the first line that is not so, UnicodeDecodeError when that line is not valid UTF-8
  and ValueError when it is an accepted line with a counter that is no integer, and
  returns no record. For any other offset it raises too: ValueError when the offset
  does not fit the 64-bit file offset, OSError when it is negative or above the largest
  offset of the file system. The stored URL of the raw first field \<open>wiki/Some%20Page\<close> is
  \<open>Some Page\<close>.
\<close>

theorem parse_pos_sider_section:
  "(seekable env offset \<and> list_all (line_ok env) (sider_lines file offset) \<longrightarrow>
      parse_pos_sider env file offset
        = Inr (List.map_filter (line_record env) (sider_lines file offset)))
   \<and> (\<forall>bad. seekable env offset
          \<and> find (\<lambda>raw. \<not> line_ok env raw) (sider_lines file offset) = Some bad \<longrightarrow>
        parse_pos_sider env file offset
          = Inl (if text_of bad = None then UnicodeDecodeError else ValueError))
   \<and> (offset < - (2 ^ 63) \<or> 2 ^ 63 \<le> offset \<longrightarrow>
        parse_pos_sider env file offset = Inl ValueError)
   \<and> (- (2 ^ 63) \<le> offset \<and> offset < 2 ^ 63
        \<and> (offset < 0 \<or> int (max_file_offset env) < offset) \<longrightarrow>
        parse_pos_sider env file offset = Inl OSError)
   \<and> stored_url (str ''wiki/Some%20Page'') = str ''Some Page''"
proof -
  have a: "parse_pos_sider env file offset
        = Inr (List.map_filter (line_record env) (sider_lines file offset))"
    if "seekable env offset" "list_all (line_ok env) (sider_lines file offset)"
    using that loop_reads_section[of env "readlines (drop (nat offset) file)" "[]"]
    by (simp add: parse_pos_sider_def seek_cases(1) sider_lines_def)
  have b: "parse_pos_sider env file offset
          = Inl (if text_of bad = None then UnicodeDecodeError else ValueError)"
    if "seekable env offset"
      "find (\<lambda>raw. \<not> line_ok env raw) (sider_lines file offset) = Some bad" for bad
    using that loop_fails_on_bad_line[of env "readlines (drop (nat offset) file)" bad "[]"]
    by (simp add: parse_pos_sider_def seek_cases(1) sider_lines_def)
  have c: "parse_pos_sider env file offset = Inl ValueError"
    if "offset < - (2 ^ 63) \<or> 2 ^ 63 \<le> offset"
    using seek_cases(2)[OF that] by (simp add: parse_pos_sider_def)
  have d: "parse_pos_sider env file offset = Inl OSError"
    if "- (2 ^ 63) \<le> offset" "offset < 2 ^ 63" "offset < 0 \<or> int (max_file_offset env) < offset"
    using seek_cases(3)[OF that] by (simp add: parse_pos_sider_def)
  have e: "stored_url (str ''wiki/Some%20Page'') = str ''Some Page''"
    by (simp add: stored_url_def remove_prefix_def startswith_def unquote_def hexval_def
        between_def decode_utf8_replace_def need_def trail_def lead_base_def)
  show ?thesis using a b c d e by blast
qed

text \<open>
  The example section, with one accepted line, one ignored URL and one line after the
  end; a line that is not UTF-8 and a line whose first counter is \<open>x\<close>; and, on a file
  system whose largest offset is 2^44 - 4096, four offsets that \<open>seek\<close> refuses.
\<close>

theorem parse_pos_sider_section_witness:
  "parse_pos_sider example_env example_section 0
     = Inr [\<lparr>url = str ''Some Page'', pages = 7, bandwidth = 99, entry = 1, exit = 2\<rparr>]
   \<and> parse_pos_sider example_env [CHR 0xFF, CHR 0x0A] 0 = Inl UnicodeDecodeError
   \<and> parse_pos_sider example_env (''/page x 2 3 4'' @ [CHR 0x0A]) 0 = Inl ValueError
   \<and> parse_pos_sider example_env example_section (- 1) = Inl OSError
   \<and> parse_pos_sider example_env example_section (2 ^ 44 - 4095) = Inl OSError
   \<and> parse_pos_sider example_env example_section (2 ^ 63) = Inl ValueError
   \<and> parse_pos_sider example_env example_section (- (2 ^ 63) - 1) = Inl ValueError"
proof -
  have s0: "seekable example_env 0"
    by (simp add: seekable_def example_env_def)
  have lines: "sider_lines example_section 0
      = [''BEGIN_SIDER 3'' @ [CHR 0x0A], ''/wiki/Some%20Page 7 99 1 2'' @ [CHR 0x0A],
         ''/ignored/x 1 1 1 1'' @ [CHR 0x0A]]"
    by (simp add: sider_lines_def example_section_def is_end_def text_of_def eval_defs)
  have r1: "line_record example_env (''BEGIN_SIDER 3'' @ [CHR 0x0A]) = None"
    and o1: "line_ok example_env (''BEGIN_SIDER 3'' @ [CHR 0x0A])"
    by (simp_all add: line_record_def line_ok_def text_of_def accepted_def eval_defs)
  have r2: "line_record example_env (''/wiki/Some%20Page 7 99 1 2'' @ [CHR 0x0A])
        = Some \<lparr>url = str ''Some Page'', pages = 7, bandwidth = 99, entry = 1, exit = 2\<rparr>"
    and o2: "line_ok example_env (''/wiki/Some%20Page 7 99 1 2'' @ [CHR 0x0A])"
    by (simp_all add: line_record_def line_ok_def text_of_def accepted_def record_of_def counters_def
        stored_url_def remove_prefix_def example_env_def eval_defs)
  have r3: "line_record example_env (''/ignored/x 1 1 1 1'' @ [CHR 0x0A]) = None"
    and o3: "line_ok example_env (''/ignored/x 1 1 1 1'' @ [CHR 0x0A])"
    by (simp_all add: line_record_def line_ok_def text_of_def accepted_def record_of_def counters_def
        stored_url_def remove_prefix_def example_env_def eval_defs)
  have a: "parse_pos_sider example_env example_section 0
     = Inr [\<lparr>url = str ''Some Page'', pages = 7, bandwidth = 99, entry = 1, exit = 2\<rparr>]"
    using parse_pos_sider_section [of example_env 0 example_section] s0 lines r1 r2 r3 o1 o2 o3
    by simp
  have u: "sider_lines [CHR 0xFF, CHR 0x0A] 0 = [[CHR 0xFF, CHR 0x0A]]"
    "text_of [CHR 0xFF, CHR 0x0A] = None"
    "\<not> line_ok example_env [CHR 0xFF, CHR 0x0A]"
    by (simp_all add: sider_lines_def is_end_def line_ok_def text_of_def eval_defs)
  have b: "parse_pos_sider example_env [CHR 0xFF, CHR 0x0A] 0 = Inl UnicodeDecodeError"
    using parse_pos_sider_section [of example_env 0 "[CHR 0xFF, CHR 0x0A]"] s0 u
    by simp
  have v: "sider_lines (''/page x 2 3 4'' @ [CHR 0x0A]) 0 = [''/page x 2 3 4'' @ [CHR 0x0A]]"
    "text_of (''/page x 2 3 4'' @ [CHR 0x0A]) = Some (str ''/page x 2 3 4'')"
    "\<not> line_ok example_env (''/page x 2 3 4'' @ [CHR 0x0A])"
    by (simp_all add: sider_lines_def is_end_def line_ok_def text_of_def accepted_def counters_def
        stored_url_def remove_prefix_def example_env_def eval_defs)
  have c: "parse_pos_sider example_env (''/page x 2 3 4'' @ [CHR 0x0A]) 0 = Inl ValueError"
    using parse_pos_sider_section [of example_env 0 "''/page x 2 3 4'' @ [CHR 0x0A]"] s0 v
    by simp
  have d: "parse_pos_sider example_env example_section (- 1) = Inl OSError"
    using parse_pos_sider_section [of example_env "- 1" example_section]
    by simp
  have e: "parse_pos_sider example_env example_section (2 ^ 44 - 4095) = Inl OSError"
    using parse_pos_sider_section [of example_env "2 ^ 44 - 4095" example_section]
    by (simp add: example_env_def)
  have f: "parse_pos_sider example_env example_section (2 ^ 63) = Inl ValueError"
    using parse_pos_sider_section [of example_env "2 ^ 63" example_section]
    by simp
  have g: "parse_pos_sider example_env example_section (- (2 ^ 63) - 1) = Inl ValueError"
    using parse_pos_sider_section [of example_env "- (2 ^ 63) - 1" example_section]
    by simp
  show ?thesis using a b c d e f g by simp
qed

text \<open>
  Not every byte stream gives a result: a five-field line whose last counter is \<open>y\<close>
  makes \<open>parse_pos_sider\<close> raise ValueError.
\<close>

theorem parse_pos_sider_bad_counter:
  "parse_pos_sider example_env (''/page 1 2 3 y'' @ [CHR 0x0A]) 0 = Inl ValueError"
  by (simp add: parse_pos_sider_def seek_def normalize_url_def example_env_def eval_defs)

subsection \<open>Ignored URLs\<close>

lemma should_ignore_url_iff:
  "should_ignore_url env u \<longleftrightarrow>
     u = [] \<or> u = str ''/'' \<or> (\<exists>p \<in> set (ignore_patterns env). startswith u p)"
  by (auto simp: should_ignore_url_def list_ex_iff)

lemma line_record_not_ignored:
  "line_record env raw = Some r \<Longrightarrow> \<not> should_ignore_url env (url r)"
  by (auto simp: line_record_def accepted_def record_of_def
      split: option.splits list.splits if_splits)

lemma parse_pos_sider_not_ignored:
  assumes "parse_pos_sider env file offset = Inr recs"
  shows "\<forall>r \<in> set recs. \<not> should_ignore_url env (url r)"
proof -
  let ?lines = "readlines (drop (nat offset) file)"
  have loop: "parse_pos_sider_loop env ?lines [] = Inr recs"
    using assms by (auto simp: parse_pos_sider_def split: sum.splits dest: seek_Inr)
  then have "list_all (line_ok env) (takeWhile (\<lambda>raw. \<not> is_end raw) ?lines)"
    by (rule loop_returns_only_on_good_lines)
  then have "recs = List.map_filter (line_record env) (takeWhile (\<lambda>raw. \<not> is_end raw) ?lines)"
    using loop_reads_section[of env ?lines "[]"] loop by simp
  then show ?thesis
    by (auto simp: List.map_filter_def dest: line_record_not_ignored)
qed

lemma get_or_create_rows:
  assumes "get_or_create_website_url_id db w u = (i, db1)"
  shows "website_url_stats db1 = website_url_stats db"
    and "file_tracking db1 = file_tracking db" and "websites db1 = websites db"
    and "set (website_url db) \<subseteq> set (website_url db1)"
    and "\<forall>wu \<in> set (website_url db1). wu \<in> set (website_url db) \<or> wu_url wu = u"
    and "\<exists>wu \<in> set (website_url db1). wu_id wu = i \<and> wu_url wu = u"
  using assms
  by (auto simp: get_or_create_website_url_id_def find_Some_iff split: option.splits)

lemma update_server_stats_rows:
  "website_url (update_server_stats db i s y m d) = website_url db"
  "file_tracking (update_server_stats db i s y m d) = file_tracking db"
  "websites (update_server_stats db i s y m d) = websites db"
  "\<forall>ws \<in> set (website_url_stats (update_server_stats db i s y m d)).
      ws \<in> set (website_url_stats db) \<or> ws_website_url_id ws = i"
  by (auto simp: update_server_stats_def stats_key_def)

lemma merge_sider_data_urls_grow:
  "set (website_url db) \<subseteq> set (website_url (merge_sider_data db w s y m recs))"
proof (induction recs arbitrary: db)
  case Nil
  show ?case by simp
next
  case (Cons d rest)
  obtain i db1 where g: "get_or_create_website_url_id db w (url d) = (i, db1)"
    by (cases "get_or_create_website_url_id db w (url d)")
  have "set (website_url db) \<subseteq> set (website_url (update_server_stats db1 i s y m d))"
    using get_or_create_rows(4)[OF g] by (simp add: update_server_stats_rows)
  also have "\<dots> \<subseteq> set (website_url (merge_sider_data (update_server_stats db1 i s y m d) w s y m rest))"
    by (rule Cons.IH)
  finally show ?case using g by simp
qed

lemma merge_sider_data_fresh:
  assumes "\<forall>r \<in> set recs. \<not> should_ignore_url env (url r)"
  shows "fresh_rows env db (merge_sider_data db w s y m recs)"
  using assms
proof (induction recs arbitrary: db)
  case Nil
  show ?case by (simp add: fresh_rows_def)
next
  case (Cons d rest)
  obtain i db1 where g: "get_or_create_website_url_id db w (url d) = (i, db1)"
    by (cases "get_or_create_website_url_id db w (url d)")
  let ?db2 = "update_server_stats db1 i s y m d"
  let ?db' = "merge_sider_data ?db2 w s y m rest"
  have ok: "\<not> should_ignore_url env (url d)" using Cons.prems by simp
  have ih: "fresh_rows env ?db2 ?db'" using Cons.IH Cons.prems by simp
  have grow: "set (website_url ?db2) \<subseteq> set (website_url ?db')"
    by (rule merge_sider_data_urls_grow)
  have urls2: "\<forall>wu \<in> set (website_url ?db2). wu \<in> set (website_url db) \<or> \<not> should_ignore_url env (wu_url wu)"
    using get_or_create_rows(5)[OF g] ok by (auto simp: update_server_stats_rows)
  obtain wu0 where wu0: "wu0 \<in> set (website_url ?db2)" "wu_id wu0 = i" "wu_url wu0 = url d"
    using get_or_create_rows(6)[OF g] by (auto simp: update_server_stats_rows)
  have stats2: "\<forall>ws \<in> set (website_url_stats ?db2). ws \<in> set (website_url_stats db) \<or> ws_website_url_id ws = i"
    using update_server_stats_rows(4)[of db1 i s y m d] get_or_create_rows(1)[OF g] by simp
  have a: "\<forall>wu \<in> set (website_url ?db'). wu \<in> set (website_url db) \<or> \<not> should_ignore_url env (wu_url wu)"
    using ih urls2 unfolding fresh_rows_def by blast
  have b: "\<forall>ws \<in> set (website_url_stats ?db').
            ws \<in> set (website_url_stats db)
            \<or> (\<exists>wu \<in> set (website_url ?db').
                  wu_id wu = ws_website_url_id ws \<and> \<not> should_ignore_url env (wu_url wu))"
  proof
    fix ws assume "ws \<in> set (website_url_stats ?db')"
    then consider "ws \<in> set (website_url_stats ?db2)"
      | "\<exists>wu \<in> set (website_url ?db'). wu_id wu = ws_website_url_id ws \<and> \<not> should_ignore_url env (wu_url wu)"
      using ih unfolding fresh_rows_def by blast
    then show "ws \<in> set (website_url_stats db)
            \<or> (\<exists>wu \<in> set (website_url ?db').
                  wu_id wu = ws_website_url_id ws \<and> \<not> should_ignore_url env (wu_url wu))"
    proof cases
      case 1
      with stats2 have "ws \<in> set (website_url_stats db) \<or> ws_website_url_id ws = i" by blast
      then show ?thesis using wu0 grow ok by auto
    next
      case 2
      then show ?thesis by blast
    qed
  qed
  show ?case using a b g by (simp add: fresh_rows_def)
qed

lemma ingest_cases:
  "(\<exists>recs w y m positions off.
        parse_begin_map env file = Inr positions \<and> positions (str ''POS_SIDER'') = Some off
        \<and> parse_pos_sider env file off = Inr recs
        \<and> (\<forall>lm now. ingest env db fn sid lm now file
              = Returned (update_file_tracking (merge_sider_data db w sid y m recs) fn sid lm now)))
   \<or> (\<forall>lm now. ingest env db fn sid lm now file = Returned db)
   \<or> (\<exists>e. \<forall>lm now. ingest env db fn sid lm now file = Raised e db)"
proof (cases "parse_begin_map env file")
  case (Inl e)
  then have "\<forall>lm now. ingest env db fn sid lm now file = Raised e db"
    by (simp add: ingest_def)
  then show ?thesis by blast
next
  case pm: (Inr positions)
  show ?thesis
  proof (cases "positions (str ''POS_SIDER'')")
    case None
    with pm have "\<forall>lm now. ingest env db fn sid lm now file = Returned db"
      by (simp add: ingest_def)
    then show ?thesis by blast
  next
    case po: (Some off)
    show ?thesis
    proof (cases "parse_pos_sider env file off")
      case (Inl e)
      with pm po have "\<forall>lm now. ingest env db fn sid lm now file = Raised e db"
        by (simp add: ingest_def)
      then show ?thesis by blast
    next
      case ps: (Inr recs)
      show ?thesis
      proof (cases "get_website_id db (website_name_of fn)")
        case (Inl e)
        with pm po ps have "\<forall>lm now. ingest env db fn sid lm now file = Raised e db"
          by (simp add: ingest_def)
        then show ?thesis by blast
      next
        case gw: (Inr w)
        show ?thesis
        proof (cases "year_of env fn")
          case None
          with pm po ps gw have "\<forall>lm now. ingest env db fn sid lm now file = Raised ValueError db"
            by (simp add: ingest_def)
          then show ?thesis by blast
        next
          case yr: (Some y)
          show ?thesis
          proof (cases "month_of env fn")
            case None
            with pm po ps gw yr
            have "\<forall>lm now. ingest env db fn sid lm now file = Raised ValueError db"
              by (simp add: ingest_def)
            then show ?thesis by blast
          next
            case (Some m)
            with pm po ps gw yr
            have "\<forall>lm now. ingest env db fn sid lm now file
              = Returned (update_file_tracking (merge_sider_data db w sid y m recs) fn sid lm now)"
              by (simp add: ingest_def)
            with pm po ps show ?thesis by blast
          qed
        qed
      qed
    qed
  qed
qed

lemma example_parse_begin_map:
  "\<exists>positions. parse_begin_map example_env example_file = Inr positions
      \<and> positions (str ''POS_SIDER'') = Some 33"
  by (simp add: parse_begin_map_def example_file_def example_section_def eval_defs)

lemma example_parse_pos_sider:
  "parse_pos_sider example_env example_file 33
     = Inr [\<lparr>url = str ''Some Page'', pages = 7, bandwidth = 99, entry = 1, exit = 2\<rparr>]"
  by (simp add: parse_pos_sider_def seek_def normalize_url_def example_env_def
      example_file_def example_section_def eval_defs)

lemma example_name:
  "basename example_path = example_filename"
  "website_name_of example_filename = str ''example.com''"
  "year_of example_env example_filename = Some 2024"
  "month_of example_env example_filename = Some 3"
  by (simp_all add: basename_def example_path_def example_filename_def website_name_of_def
      year_of_def month_of_def eval_defs)

lemma example_ingest:
  "ingest example_env example_db example_filename 1 \<lparr>seconds = 1000, microsecond = 0\<rparr>
      \<lparr>seconds = 3000, microsecond = 0\<rparr> example_file = Returned example_db_after"
proof -
  obtain positions where p: "parse_begin_map example_env example_file = Inr positions"
    "positions (str ''POS_SIDER'') = Some 33"
    using example_parse_begin_map by blast
  have w: "get_website_id example_db (str ''example.com'') = Inr 1"
    by (simp add: get_website_id_def example_db_def)
  have m: "merge_sider_data example_db 1 1 2024 3
      [\<lparr>url = str ''Some Page'', pages = 7, bandwidth = 99, entry = 1, exit = 2\<rparr>]
      = example_db\<lparr>website_url_stats := website_url_stats example_db @
          [\<lparr>ws_website_url_id = 1, ws_server_id = 1, ws_year = 2024, ws_month = 3,
            hits = 7, entry_count = 1, exit_count = 2\<rparr>]\<rparr>"
    by (simp add: get_or_create_website_url_id_def update_server_stats_def stats_key_def example_db_def)
  have u: "update_file_tracking
      (example_db\<lparr>website_url_stats := website_url_stats example_db @
          [\<lparr>ws_website_url_id = 1, ws_server_id = 1, ws_year = 2024, ws_month = 3,
            hits = 7, entry_count = 1, exit_count = 2\<rparr>]\<rparr>)
      example_filename 1 \<lparr>seconds = 1000, microsecond = 0\<rparr> \<lparr>seconds = 3000, microsecond = 0\<rparr>
      = example_db_after"
    by (simp add: update_file_tracking_def tracking_key_def example_db_after_def example_db_def
        example_filename_def)
  have "ingest example_env example_db example_filename 1 \<lparr>seconds = 1000, microsecond = 0\<rparr>
      \<lparr>seconds = 3000, microsecond = 0\<rparr> example_file
      = Returned (update_file_tracking (merge_sider_data example_db 1 1 2024 3
          [\<lparr>url = str ''Some Page'', pages = 7, bandwidth = 99, entry = 1, exit = 2\<rparr>])
          example_filename 1 \<lparr>seconds = 1000, microsecond = 0\<rparr> \<lparr>seconds = 3000, microsecond = 0\<rparr>)"
    using p example_parse_pos_sider example_name w by (simp add: ingest_def)
  then show ?thesis by (simp only: m u)
qed

text \<open>The example world: the file, the clock, and the datetime of a modification time.\<close>

lemma example_world_facts:
  "file_at (example_world t bytes) example_path = Some \<lparr>mtime = t, content = bytes\<rparr>"
  "clock (example_world t bytes) p = \<lparr>seconds = 3000, microsecond = 5\<rparr>"
  "localtime (example_world t bytes) s = Inr s"
  "listdir (example_world t bytes) (str ''/var/lib/awstats'') = Some [example_filename]"
  by (simp_all add: example_world_def)

lemma example_world_datetime:
  "\<lfloor>t + 1 / 2000000\<rfloor> = s \<Longrightarrow>
     \<exists>d. fromtimestamp (example_world t bytes) (mtime \<lparr>mtime = t, content = bytes\<rparr>) = Inr d
        \<and> d\<lparr>microsecond := 0\<rparr> = \<lparr>seconds = s, microsecond = 0\<rparr>"
  using fromtimestamp_Inr[of "example_world t bytes" t s] by (simp add: example_world_facts)

lemma example_world_second:
  "\<lfloor>t + 1 / 2000000\<rfloor> = s \<Longrightarrow>
     map_sum id seconds (fromtimestamp (example_world t bytes) t) = Inr s"
proof -
  assume "\<lfloor>t + 1 / 2000000\<rfloor> = s"
  then obtain d where d: "fromtimestamp (example_world t bytes) t = Inr d"
    "d\<lparr>microsecond := 0\<rparr> = \<lparr>seconds = s, microsecond = 0\<rparr>"
    using fromtimestamp_Inr[of "example_world t bytes" t s] by (auto simp: example_world_facts)
  have "seconds (d\<lparr>microsecond := 0\<rparr>) = s" unfolding d(2) by simp
  then show ?thesis using d(1) by simp
qed

lemma example_process_file:
  assumes "\<lfloor>t + 1 / 2000000\<rfloor> = 1000"
  shows "process_file example_env (example_world t example_file) example_db example_path 1 False
     = Returned example_db_after"
proof -
  obtain d where d: "fromtimestamp (example_world t example_file)
        (mtime \<lparr>mtime = t, content = example_file\<rparr>) = Inr d"
      "d\<lparr>microsecond := 0\<rparr> = \<lparr>seconds = 1000, microsecond = 0\<rparr>"
    using example_world_datetime[OF assms] by blast
  have h: "\<not> truthy (has_file_been_processed example_db example_filename 1
             \<lparr>seconds = 1000, microsecond = 0\<rparr> False)"
    by (simp add: has_file_been_processed_def tracking_key_def example_db_def example_filename_def)
  show ?thesis
    unfolding process_file_gate[OF example_world_facts(1) d(1)] d(2) example_name(1)
    using h example_ingest by (simp add: example_world_facts)
qed

lemma update_file_tracking_rows:
  "website_url (update_file_tracking db fn sid lm now) = website_url db"
  "website_url_stats (update_file_tracking db fn sid lm now) = website_url_stats db"
  "websites (update_file_tracking db fn sid lm now) = websites db"
  by (simp_all add: update_file_tracking_def)

text \<open>
  C5. \<open>should_ignore_url\<close> is true exactly for the empty URL, for \<open>/\<close> and for a URL that
  starts with a configured ignore prefix. No record the decoder returns has such a URL,
  and whatever \<open>process_file\<close> does, every URL row it adds has a URL that is not
  ignored and every stats row it adds or changes belongs to such a URL row.
\<close>

theorem ignored_urls_excluded:
  "(should_ignore_url env u \<longleftrightarrow>
      u = [] \<or> u = str ''/'' \<or> (\<exists>p \<in> set (ignore_patterns env). startswith u p))
   \<and> (\<forall>recs. parse_pos_sider env file offset = Inr recs \<longrightarrow>
         (\<forall>r \<in> set recs. \<not> should_ignore_url env (url r)))
   \<and> fresh_rows env db (state_of (process_file env world db p sid forced))"
proof -
  have "fresh_rows env db (state_of (process_file env world db p sid forced))"
  proof (cases "file_at world p")
    case None
    then show ?thesis by (simp add: process_file_def fresh_rows_def)
  next
    case (Some f)
    show ?thesis
    proof (cases "fromtimestamp world (mtime f)")
      case (Inl e)
      show ?thesis
        unfolding process_file_no_datetime[OF Some Inl] by (simp add: fresh_rows_def)
    next
      case (Inr t)
      note gate = process_file_gate[OF Some Inr]
    show ?thesis
    proof (cases "truthy (has_file_been_processed db (basename p) sid (t\<lparr>microsecond := 0\<rparr>) forced)")
      case True
      then show ?thesis by (simp add: gate fresh_rows_def)
    next
      case False
      consider
        (full) recs w y m positions off where
          "parse_begin_map env (content f) = Inr positions" "positions (str ''POS_SIDER'') = Some off"
          "parse_pos_sider env (content f) off = Inr recs"
          "\<forall>lm now. ingest env db (basename p) sid lm now (content f)
             = Returned (update_file_tracking (merge_sider_data db w sid y m recs) (basename p) sid lm now)"
        | (nothing) "\<forall>lm now. ingest env db (basename p) sid lm now (content f) = Returned db"
        | (raised) e where "\<forall>lm now. ingest env db (basename p) sid lm now (content f) = Raised e db"
        using ingest_cases[of env "content f" db "basename p" sid] by blast
      then show ?thesis
      proof cases
        case full
        have "fresh_rows env db (merge_sider_data db w sid y m recs)"
          using merge_sider_data_fresh parse_pos_sider_not_ignored[OF full(3)] by blast
        moreover have "state_of (process_file env world db p sid forced)
            = update_file_tracking (merge_sider_data db w sid y m recs) (basename p) sid
                (t\<lparr>microsecond := 0\<rparr>) ((clock world p)\<lparr>microsecond := 0\<rparr>)"
          using False full(4) by (simp add: gate)
        ultimately show ?thesis
          by (simp add: fresh_rows_def update_file_tracking_rows)
      next
        case nothing
        with False show ?thesis by (simp add: gate fresh_rows_def)
      next
        case raised
        with False show ?thesis by (simp add: gate fresh_rows_def)
      qed
    qed
    qed
  qed
  then show ?thesis
    using should_ignore_url_iff parse_pos_sider_not_ignored by blast
qed

text \<open>The example file: \<open>/ignored/x\<close> leaves no trace, \<open>Some Page\<close> gets its stats row.\<close>

theorem ignored_urls_excluded_witness:
  "should_ignore_url example_env (str ''ignored/x'')
   \<and> \<not> should_ignore_url example_env (str ''Some Page'')
   \<and> (\<exists>wu \<in> set (website_url example_db_after).
         wu_id wu = 1 \<and> \<not> should_ignore_url example_env (wu_url wu))"
proof -
  have pat: "str ''ignored/'' \<in> set (ignore_patterns example_env)"
    "startswith (str ''ignored/x'') (str ''ignored/'')"
    by (simp_all add: example_env_def startswith_def)
  have row: "\<lparr>ws_website_url_id = 1, ws_server_id = 1, ws_year = 2024, ws_month = 3,
            hits = 7, entry_count = 1, exit_count = 2\<rparr> \<in> set (website_url_stats example_db_after)"
    "\<lparr>ws_website_url_id = 1, ws_server_id = 1, ws_year = 2024, ws_month = 3,
            hits = 7, entry_count = 1, exit_count = 2\<rparr> \<notin> set (website_url_stats example_db)"
    by (simp_all add: example_db_after_def example_db_def)
  have run: "state_of (process_file example_env (example_world 1000 example_file) example_db
               example_path 1 False) = example_db_after"
    using example_process_file [OF example_seconds(1)] by simp
  note t = ignored_urls_excluded [of example_env "str ''ignored/x''" example_file 33 example_db
               "example_world 1000 example_file" example_path 1 False]
  from t pat have a: "should_ignore_url example_env (str ''ignored/x'')" by blast
  from t example_parse_pos_sider
  have b: "\<not> should_ignore_url example_env (str ''Some Page'')" by simp
  from t run row have c: "\<exists>wu \<in> set (website_url example_db_after).
         wu_id wu = 1 \<and> \<not> should_ignore_url example_env (wu_url wu)"
    unfolding fresh_rows_def by fastforce
  show ?thesis using a b c by blast
qed

subsection \<open>Idempotence\<close>

lemma has_file_been_processed_after_update:
  "has_file_been_processed (update_file_tracking db fn sid lm now) fn sid lm False = PyBool True"
proof (cases "find (\<lambda>ft. tracking_key ft = (fn, sid)) (file_tracking db)")
  case None
  then have "\<not> list_ex (\<lambda>ft. tracking_key ft = (fn, sid)) (file_tracking db)"
    by (simp add: list_ex_find)
  with None show ?thesis
    by (simp add: has_file_been_processed_def update_file_tracking_def find_append_single
        tracking_key_def)
next
  case (Some r)
  then have "list_ex (\<lambda>ft. tracking_key ft = (fn, sid)) (file_tracking db)"
    by (simp add: list_ex_find)
  moreover have "tracking_key ft = k \<Longrightarrow>
      tracking_key (ft\<lparr>last_modified := a, processed_date := b\<rparr>) = k" for ft k a b
    by (simp add: tracking_key_def)
  ultimately show ?thesis using Some
    by (simp add: has_file_been_processed_def update_file_tracking_def find_map_if)
qed

lemma truncate_same_second:
  "seconds (a :: datetime) = seconds b \<Longrightarrow> a\<lparr>microsecond := 0\<rparr> = b\<lparr>microsecond := 0\<rparr>"
  by (cases a, cases b) simp

text \<open>
  C1. Processing a file a second time without force, with the same bytes and a
  modification time that converts to a datetime of the same second (or fails to convert
  with the same exception), changes nothing: when the first call returned, the second
  returns the same database, and in every case the database after the second call is the
  database after the first.
\<close>

theorem process_file_idempotent:
  assumes "file_at world p = Some f" "file_at world' p = Some f'"
    and "content f' = content f"
    and "map_sum id seconds (fromtimestamp world' (mtime f'))
           = map_sum id seconds (fromtimestamp world (mtime f))"
  shows "(\<forall>db1. process_file env world db p sid forced = Returned db1 \<longrightarrow>
            process_file env world' db1 p sid False = Returned db1)
       \<and> state_of (process_file env world' (state_of (process_file env world db p sid forced)) p sid False)
           = state_of (process_file env world db p sid forced)"
proof (cases "fromtimestamp world (mtime f)")
  case (Inl e)
  with assms(4) have "fromtimestamp world' (mtime f') = Inl e"
    by (cases "fromtimestamp world' (mtime f')") simp_all
  then show ?thesis
    by (simp add: process_file_no_datetime[OF assms(1) Inl] process_file_no_datetime[OF assms(2)])
next
  case (Inr t)
  with assms(4) obtain t' where t': "fromtimestamp world' (mtime f') = Inr t'" "seconds t' = seconds t"
    by (cases "fromtimestamp world' (mtime f')") simp_all
  define fn where "fn = basename p"
  define lm where "lm = t\<lparr>microsecond := 0\<rparr>"
  define now1 where "now1 = (clock world p)\<lparr>microsecond := 0\<rparr>"
  define now2 where "now2 = (clock world' p)\<lparr>microsecond := 0\<rparr>"
  have lm': "t'\<lparr>microsecond := 0\<rparr> = lm"
    using truncate_same_second[OF t'(2)] by (simp add: lm_def)
  have first: "process_file env world db p sid forced
      = (if truthy (has_file_been_processed db fn sid lm forced) then Returned db
         else ingest env db fn sid lm now1 (content f))"
    by (simp add: process_file_gate[OF assms(1) Inr] fn_def lm_def now1_def)
  have second: "process_file env world' d p sid False
      = (if truthy (has_file_been_processed d fn sid lm False) then Returned d
         else ingest env d fn sid lm now2 (content f))" for d
    using assms(3) lm' by (simp add: process_file_gate[OF assms(2) t'(1)] fn_def now2_def)
  have forced_skip: "truthy (has_file_been_processed db fn sid lm forced) \<Longrightarrow> \<not> forced"
    by (auto simp: has_file_been_processed_def)
  consider
    (full) recs w y m where
      "\<forall>lm now. ingest env db fn sid lm now (content f)
         = Returned (update_file_tracking (merge_sider_data db w sid y m recs) fn sid lm now)"
    | (nothing) "\<forall>lm now. ingest env db fn sid lm now (content f) = Returned db"
    | (raised) e where "\<forall>lm now. ingest env db fn sid lm now (content f) = Raised e db"
    using ingest_cases[of env "content f" db fn sid] by blast
  then show ?thesis
  proof cases
    case full
    show ?thesis
    proof (cases "truthy (has_file_been_processed db fn sid lm forced)")
      case True
      with forced_skip have "truthy (has_file_been_processed db fn sid lm False)" by auto
      with True show ?thesis by (simp add: first second)
    next
      case False
      then show ?thesis
        using full by (simp add: first second has_file_been_processed_after_update)
    qed
  next
    case nothing
    then show ?thesis by (simp add: first second)
  next
    case raised
    show ?thesis
    proof (cases "truthy (has_file_been_processed db fn sid lm forced)")
      case True
      with forced_skip have "truthy (has_file_been_processed db fn sid lm False)" by auto
      with True show ?thesis by (simp add: first second)
    next
      case False
      then show ?thesis using raised by (simp add: first second)
    qed
  qed
qed

text \<open>
  The example file, modified at the second 1000 and processed, then processed again
  with a modification time 250 microseconds later.
\<close>

theorem process_file_idempotent_witness:
  "process_file example_env (example_world (1000 + 250 / 1000000) example_file) example_db_after
       example_path 1 False
     = Returned example_db_after"
proof -
  have s: "map_sum id seconds
             (fromtimestamp (example_world (1000 + 250 / 1000000) example_file)
                (mtime \<lparr>mtime = 1000 + 250 / 1000000, content = example_file\<rparr>))
         = map_sum id seconds
             (fromtimestamp (example_world 1000 example_file)
                (mtime \<lparr>mtime = 1000, content = example_file\<rparr>))"
    using example_world_second[OF example_seconds(1), of example_file]
      example_world_second[OF example_seconds(2), of example_file]
    by simp
  have c: "content \<lparr>mtime = 1000 + 250 / 1000000, content = example_file\<rparr>
         = content \<lparr>mtime = (1000 :: rat), content = example_file\<rparr>"
    by simp
  show ?thesis
    using process_file_idempotent [OF example_world_facts(1) example_world_facts(1) c s,
        of example_env example_db 1 False]
      example_process_file [OF example_seconds(1)]
    by simp
qed

subsection \<open>The idempotency gate\<close>

lemma example_ingest_again:
  "ingest example_env example_db example_filename 2 \<lparr>seconds = s, microsecond = 0\<rparr>
      \<lparr>seconds = 3000, microsecond = 0\<rparr> example_file = Returned (example_db_reprocessed s)"
proof -
  obtain positions where p: "parse_begin_map example_env example_file = Inr positions"
    "positions (str ''POS_SIDER'') = Some 33"
    using example_parse_begin_map by blast
  have w: "get_website_id example_db (str ''example.com'') = Inr 1"
    by (simp add: get_website_id_def example_db_def)
  have m: "merge_sider_data example_db 1 2 2024 3
      [\<lparr>url = str ''Some Page'', pages = 7, bandwidth = 99, entry = 1, exit = 2\<rparr>]
      = example_db\<lparr>website_url_stats :=
          [\<lparr>ws_website_url_id = 1, ws_server_id = 2, ws_year = 2024, ws_month = 3,
            hits = 17, entry_count = 5, exit_count = 7\<rparr>]\<rparr>"
    by (simp add: get_or_create_website_url_id_def update_server_stats_def stats_key_def example_db_def)
  have u: "update_file_tracking
      (example_db\<lparr>website_url_stats :=
          [\<lparr>ws_website_url_id = 1, ws_server_id = 2, ws_year = 2024, ws_month = 3,
            hits = 17, entry_count = 5, exit_count = 7\<rparr>]\<rparr>)
      example_filename 2 \<lparr>seconds = s, microsecond = 0\<rparr> \<lparr>seconds = 3000, microsecond = 0\<rparr>
      = example_db_reprocessed s"
    by (simp add: update_file_tracking_def tracking_key_def example_db_reprocessed_def example_db_def
        example_filename_def)
  have "ingest example_env example_db example_filename 2 \<lparr>seconds = s, microsecond = 0\<rparr>
      \<lparr>seconds = 3000, microsecond = 0\<rparr> example_file
      = Returned (update_file_tracking (merge_sider_data example_db 1 2 2024 3
          [\<lparr>url = str ''Some Page'', pages = 7, bandwidth = 99, entry = 1, exit = 2\<rparr>])
          example_filename 2 \<lparr>seconds = s, microsecond = 0\<rparr> \<lparr>seconds = 3000, microsecond = 0\<rparr>)"
    using p example_parse_pos_sider example_name w by (simp add: ingest_def)
  then show ?thesis by (simp only: m u)
qed

lemma example_fingerprint:
  "has_file_been_processed example_db example_filename 2 \<lparr>seconds = s, microsecond = 0\<rparr> False
     = PyBool (s = 1000)"
  by (auto simp: has_file_been_processed_def tracking_key_def example_db_def example_filename_def)

lemma example_db_reprocessed_differs: "example_db_reprocessed s \<noteq> example_db"
proof
  assume "example_db_reprocessed s = example_db"
  then have "website_url_stats (example_db_reprocessed s) = website_url_stats example_db"
    by simp
  then show False by (simp add: example_db_reprocessed_def example_db_def)
qed

text \<open>
  C6 (as amended). Under force \<open>has_file_been_processed\<close> returns \<open>False\<close>. Without force,
  and with one tracking row per (filename, server_id), it returns a truthy value exactly
  when a stored row for (filename, server_id) has a last_modified equal to the one
  passed. The value \<open>process_file\<close> passes is the local time of a whole second, but not of
  the second the modification time lies in: \<open>fromtimestamp\<close> first rounds the time to the
  nearest microsecond, so the second is the one that holds the time half a microsecond
  later. With that second \<open>s\<close>, \<open>process_file\<close> returns at once, the database untouched,
  exactly when it is not forced and a stored row for the file's name and the server has
  last_modified \<open>s\<close> with no microseconds; in every other case it ingests the file,
  and the fingerprint it will record is \<open>s\<close> with no microseconds.
\<close>

theorem has_file_been_processed_spec:
  assumes "distinct (map tracking_key (file_tracking db))"
  shows "has_file_been_processed db filename server_id last_mod True = PyBool False
     \<and> (truthy (has_file_been_processed db filename server_id last_mod False) \<longleftrightarrow>
          (\<exists>ft \<in> set (file_tracking db).
             tracking_key ft = (filename, server_id) \<and> last_modified ft = last_mod))
     \<and> (\<forall>f s. file_at world p = Some f \<and> localtime world \<lfloor>mtime f + 1 / 2000000\<rfloor> = Inr s \<longrightarrow>
          process_file env world db p sid forced
            = (if \<not> forced \<and> (\<exists>ft \<in> set (file_tracking db).
                     tracking_key ft = (basename p, sid)
                     \<and> last_modified ft = \<lparr>seconds = s, microsecond = 0\<rparr>)
               then Returned db
               else ingest env db (basename p) sid \<lparr>seconds = s, microsecond = 0\<rparr>
                      ((clock world p)\<lparr>microsecond := 0\<rparr>) (content f)))"
proof -
  have a: "truthy (has_file_been_processed db fn srv lm False) \<longleftrightarrow>
          (\<exists>ft \<in> set (file_tracking db). tracking_key ft = (fn, srv) \<and> last_modified ft = lm)"
    for fn srv lm
  proof (cases "find (\<lambda>ft. tracking_key ft = (fn, srv)) (file_tracking db)")
    case None
    then have "\<forall>ft \<in> set (file_tracking db). tracking_key ft \<noteq> (fn, srv)"
      by (simp add: find_None_iff)
    with None show ?thesis
      by (auto simp: has_file_been_processed_def)
  next
    case (Some r)
    have key: "(ft \<in> set (file_tracking db) \<and> tracking_key ft = (fn, srv)) = (ft = r)" for ft
      using find_distinct_key[OF assms, of "(fn, srv)" ft] Some by auto
    have r_in: "r \<in> set (file_tracking db)" "tracking_key r = (fn, srv)"
      using key[of r] by simp_all
    have uniq: "ft = r" if "ft \<in> set (file_tracking db)" "tracking_key ft = (fn, srv)" for ft
      using key[of ft] that by simp
    have "truthy (has_file_been_processed db fn srv lm False) \<longleftrightarrow> last_modified r = lm"
      using Some by (simp add: has_file_been_processed_def)
    also have "\<dots> \<longleftrightarrow> (\<exists>ft \<in> set (file_tracking db).
             tracking_key ft = (fn, srv) \<and> last_modified ft = lm)"
      using r_in uniq by blast
    finally show ?thesis .
  qed
  have forced_gate: "\<not> truthy (has_file_been_processed db fn srv lm True)" for fn srv lm
    by (simp add: has_file_been_processed_def)
  have b: "process_file env world db p sid forced
            = (if \<not> forced \<and> (\<exists>ft \<in> set (file_tracking db).
                     tracking_key ft = (basename p, sid)
                     \<and> last_modified ft = \<lparr>seconds = s, microsecond = 0\<rparr>)
               then Returned db
               else ingest env db (basename p) sid \<lparr>seconds = s, microsecond = 0\<rparr>
                      ((clock world p)\<lparr>microsecond := 0\<rparr>) (content f))"
    if fa: "file_at world p = Some f" and lt: "localtime world \<lfloor>mtime f + 1 / 2000000\<rfloor> = Inr s"
    for f s
  proof -
    obtain d where d: "fromtimestamp world (mtime f) = Inr d"
      "d\<lparr>microsecond := 0\<rparr> = \<lparr>seconds = s, microsecond = 0\<rparr>"
      using fromtimestamp_Inr[OF lt] by blast
    show ?thesis
    proof (cases forced)
      case True
      then show ?thesis
        unfolding process_file_gate[OF fa d(1)] d(2) using forced_gate by simp
    next
      case False
      then show ?thesis
        unfolding process_file_gate[OF fa d(1)] d(2)
        using a[of "basename p" sid "\<lparr>seconds = s, microsecond = 0\<rparr>"] by simp
    qed
  qed
  show ?thesis using a b by (simp add: has_file_been_processed_def)
qed

text \<open>
  The example database holds the fingerprint of the example file for server 2, at the
  second 1000. With the file modified 250 microseconds into that second,
  \<open>process_file\<close> returns at once; with the file modified at the second 1001, and under
  force, it ingests the file again.
\<close>

theorem has_file_been_processed_spec_witness:
  "truthy (has_file_been_processed example_db example_filename 2
             \<lparr>seconds = 1000, microsecond = 0\<rparr> False)
   \<and> \<not> truthy (has_file_been_processed example_db example_filename 2
             \<lparr>seconds = 1001, microsecond = 0\<rparr> False)
   \<and> has_file_been_processed example_db example_filename 2
             \<lparr>seconds = 1000, microsecond = 0\<rparr> True = PyBool False
   \<and> process_file example_env (example_world (1000 + 250 / 1000000) example_file) example_db
         example_path 2 False
       = Returned example_db
   \<and> process_file example_env (example_world 1001 example_file) example_db example_path 2 False
       = Returned (example_db_reprocessed 1001)
   \<and> process_file example_env (example_world (1000 + 250 / 1000000) example_file) example_db
         example_path 2 True
       = Returned (example_db_reprocessed 1000)"
proof -
  have d: "distinct (map tracking_key (file_tracking example_db))"
    by (simp add: example_db_def)
  have rows: "file_tracking example_db
      = [\<lparr>ft_filename = example_filename, ft_server_id = 2,
           last_modified = \<lparr>seconds = 1000, microsecond = 0\<rparr>,
           processed_date = \<lparr>seconds = 2000, microsecond = 0\<rparr>\<rparr>]"
    by (simp add: example_db_def example_filename_def)
  have s1: "localtime (example_world (1000 + 250 / 1000000) example_file)
              \<lfloor>mtime \<lparr>mtime = 1000 + 250 / 1000000, content = example_file\<rparr> + 1 / 2000000\<rfloor>
            = Inr 1000"
    using example_seconds(2) by (simp add: example_world_facts)
  have s2: "localtime (example_world 1001 example_file)
              \<lfloor>mtime \<lparr>mtime = 1001, content = example_file\<rparr> + 1 / 2000000\<rfloor>
            = Inr 1001"
    using example_seconds(5) by (simp add: example_world_facts)
  note t = has_file_been_processed_spec [OF d]
  have a: "truthy (has_file_been_processed example_db example_filename 2
             \<lparr>seconds = 1000, microsecond = 0\<rparr> False)"
    using t [of example_filename 2 "\<lparr>seconds = 1000, microsecond = 0\<rparr>"]
    by (simp add: rows tracking_key_def)
  have b: "\<not> truthy (has_file_been_processed example_db example_filename 2
             \<lparr>seconds = 1001, microsecond = 0\<rparr> False)"
    using t [of example_filename 2 "\<lparr>seconds = 1001, microsecond = 0\<rparr>"]
    by (simp add: rows tracking_key_def)
  have c: "has_file_been_processed example_db example_filename 2
             \<lparr>seconds = 1000, microsecond = 0\<rparr> True = PyBool False"
    using t [of example_filename 2 "\<lparr>seconds = 1000, microsecond = 0\<rparr>"] by simp
  have e: "process_file example_env (example_world (1000 + 250 / 1000000) example_file) example_db
         example_path 2 False = Returned example_db"
    using t [of _ _ _ "example_world (1000 + 250 / 1000000) example_file" example_path
             example_env 2 False] example_world_facts(1) s1
    by (simp add: rows tracking_key_def example_name(1))
  have f: "process_file example_env (example_world 1001 example_file) example_db example_path 2 False
       = Returned (example_db_reprocessed 1001)"
    using t [of _ _ _ "example_world 1001 example_file" example_path example_env 2 False]
      example_world_facts(1) s2 example_ingest_again[of 1001]
    by (simp add: rows tracking_key_def example_name(1) example_world_facts(2))
  have g: "process_file example_env (example_world (1000 + 250 / 1000000) example_file) example_db
         example_path 2 True = Returned (example_db_reprocessed 1000)"
    using t [of _ _ _ "example_world (1000 + 250 / 1000000) example_file" example_path
             example_env 2 True] example_world_facts(1) s1 example_ingest_again[of 1000]
    by (simp add: example_name(1) example_world_facts(2))
  show ?thesis using a b c e f g by simp
qed

text \<open>
  The sub-second part of the modification time is not always discarded. The example
  file was last modified at 1000 + (1 - 2^-21) seconds, less than half a microsecond
  before the second 1001 (a time that a float holds exactly, and for which the product
  of its fraction with 10^6 is exact in double precision). The stored fingerprint for
  server 2 is the second 1000, the modification time without its sub-second part: the
  gate, asked with that second, answers that the file has been processed. But
  \<open>process_file\<close> asks with the second 1001 and ingests the file again.
\<close>

theorem modification_time_rounded_up:
  "truthy (has_file_been_processed example_db example_filename 2
             \<lparr>seconds = \<lfloor>(1000 :: rat) + 2097151 / 2097152\<rfloor>, microsecond = 0\<rparr> False)
   \<and> process_file example_env (example_world (1000 + 2097151 / 2097152) example_file) example_db
         example_path 2 False
       = Returned (example_db_reprocessed 1001)
   \<and> example_db_reprocessed 1001 \<noteq> example_db"
proof -
  have a: "truthy (has_file_been_processed example_db example_filename 2
             \<lparr>seconds = \<lfloor>(1000 :: rat) + 2097151 / 2097152\<rfloor>, microsecond = 0\<rparr> False)"
    unfolding example_seconds(4) example_fingerprint by simp
  obtain d where d: "fromtimestamp (example_world (1000 + 2097151 / 2097152) example_file)
        (mtime \<lparr>mtime = 1000 + 2097151 / 2097152, content = example_file\<rparr>) = Inr d"
      "d\<lparr>microsecond := 0\<rparr> = \<lparr>seconds = 1001, microsecond = 0\<rparr>"
    using example_world_datetime[OF example_seconds(3)] by blast
  have b: "process_file example_env (example_world (1000 + 2097151 / 2097152) example_file)
         example_db example_path 2 False = Returned (example_db_reprocessed 1001)"
    unfolding process_file_gate[OF example_world_facts(1) d(1)] d(2) example_name(1)
      example_fingerprint
    using example_ingest_again[of 1001] by (simp add: example_world_facts(2))
  show ?thesis using a b example_db_reprocessed_differs by simp
qed

subsection \<open>The two file name parsers\<close>

lemma split_on_nonempty: "split_on sep s \<noteq> []"
  by (induction s) (auto split: list.splits)

lemma split_on_no_sep: "sep \<notin> set s \<Longrightarrow> split_on sep s = [s]"
  by (induction s) auto

lemma split_on_append: "split_on sep (xs @ sep # ys) = split_on sep xs @ split_on sep ys"
  by (induction xs) (auto split: list.splits simp: split_on_nonempty)

lemma join_split_on: "join sep (split_on sep s) = s"
proof (induction s)
  case Nil
  show ?case by simp
next
  case (Cons c cs)
  obtain p ps where sp: "split_on sep cs = p # ps"
    using split_on_nonempty[of sep cs] by (cases "split_on sep cs") auto
  show ?case
  proof (cases "c = sep")
    case True
    with sp Cons.IH show ?thesis by simp
  next
    case False
    with sp Cons.IH show ?thesis by (cases ps) auto
  qed
qed

lemma decimal_not_special:
  assumes "decimal env c \<noteq> None"
  shows "\<not> int_space c" "c \<noteq> 0x2D" "c \<noteq> 0x2B" "c \<noteq> 0x5F" "c \<noteq> 0x2E"
  using assms
  by (auto simp: decimal_def int_space_def between_def split: if_splits)

lemma int_digits_all_decimal:
  "list_all (\<lambda>c. decimal env c \<noteq> None) ds \<Longrightarrow> ds \<noteq> [] \<or> prev \<Longrightarrow>
     \<exists>vs. int_digits env prev ds = Some vs \<and> length vs = length ds"
proof (induction ds arbitrary: prev)
  case Nil
  then show ?case by simp
next
  case (Cons c cs)
  then obtain d where d: "decimal env c = Some d" by auto
  have "c \<noteq> 0x5F" using decimal_not_special(4)[of env c] d by simp
  moreover obtain vs where "int_digits env True cs = Some vs" "length vs = length cs"
    using Cons.IH[of True] Cons.prems by auto
  ultimately show ?case using d by simp
qed

lemma strip_with_none: "list_all (\<lambda>c. \<not> sp c) s \<Longrightarrow> strip_with sp s = s"
proof -
  assume a: "list_all (\<lambda>c. \<not> sp c) s"
  have "dropWhile sp xs = xs" if "list_all (\<lambda>c. \<not> sp c) xs" for xs
    using that by (cases xs) auto
  moreover have "list_all (\<lambda>c. \<not> sp c) (rev s)" using a by (simp add: list_all_iff)
  ultimately show ?thesis using a by (simp add: strip_with_def)
qed

lemma py_int_digits:
  assumes "list_all (\<lambda>c. decimal env c \<noteq> None) ds" "ds \<noteq> []" "length ds \<le> 640"
  shows "\<exists>v. py_int env ds = Some v"
proof -
  have "list_all (\<lambda>c. \<not> int_space c) ds"
    using assms(1) decimal_not_special(1)[of env] by (auto simp: list_all_iff)
  then have s: "strip_with int_space ds = ds" by (rule strip_with_none)
  have "decimal env (hd ds) \<noteq> None" using assms(1,2) by (cases ds) auto
  then have h: "hd ds \<noteq> 0x2D" "hd ds \<noteq> 0x2B"
    using decimal_not_special(2,3)[of env "hd ds"] by auto
  obtain vs where vs: "int_digits env False ds = Some vs" "length vs = length ds"
    using int_digits_all_decimal[OF assms(1), of False] assms(2) by auto
  have "\<not> too_many_digits env (length vs)"
    using vs(2) assms(3) by (simp add: too_many_digits_def)
  then show ?thesis using s h vs assms(2) by (simp add: py_int_def Let_def)
qed

text \<open>
  C8. For every file name \<open>awstats\<close> + two decimal digits + four decimal digits + \<open>.\<close> +
  website name + \<open>.txt\<close>, the website name, year and month that \<open>process_file\<close> takes
  by splitting at the dots and slicing at fixed positions are the ones the forced
  deletion of a single file takes by dropping four characters, splitting at the dots
  and matching \<open>awstats(\d{2})(\d{4})\<close>; the website name is the one in the file name.
\<close>

theorem filename_parsers_agree:
  fixes mm yyyy w :: pystr
  assumes "length mm = 2" "length yyyy = 4" "list_all (\<lambda>c. decimal env c \<noteq> None) (mm @ yyyy)"
  defines "filename \<equiv> str ''awstats'' @ mm @ yyyy @ [0x2E] @ w @ str ''.txt''"
  shows "\<exists>y m. year_of env filename = Some y \<and> month_of env filename = Some m
           \<and> website_name_of filename = w
           \<and> forced_file_name env filename = Inr (w, y, m)"
proof -
  define stamp where "stamp = str ''awstats'' @ mm @ yyyy"
  have nodot: "0x2E \<notin> set stamp"
    using assms(3) decimal_not_special(5)[of env] by (auto simp: stamp_def list_all_iff)
  have fn: "filename = stamp @ 0x2E # (w @ 0x2E # str ''txt'')"
    by (simp add: filename_def stamp_def)
  have sp: "split_on 0x2E filename = stamp # split_on 0x2E w @ [str ''txt'']"
    unfolding fn by (simp only: split_on_append split_on_no_sep[OF nodot]) (simp add: split_on_no_sep)
  have name: "website_name_of filename = w"
    by (simp add: website_name_of_def sp butlast_append join_split_on)
  have fwe: "take (length filename - 4) filename = stamp @ 0x2E # w"
    by (simp add: fn)
  have sp2: "split_on 0x2E (stamp @ 0x2E # w) = stamp # split_on 0x2E w"
    by (simp only: split_on_append split_on_no_sep[OF nodot]) simp
  have len2: "\<not> length (split_on 0x2E (stamp @ 0x2E # w)) < 2"
    using split_on_nonempty[of "0x2E" w] by (cases "split_on 0x2E w") (auto simp: sp2)
  have mm_y: "take 2 (drop 7 filename) = mm" "take 4 (drop 9 filename) = yyyy"
    "take 2 (drop 7 (stamp @ 0x2E # w)) = mm" "take 4 (drop 9 (stamp @ 0x2E # w)) = yyyy"
    "take 6 (drop 7 (stamp @ 0x2E # w)) = mm @ yyyy"
    using assms(1,2) by (simp_all add: filename_def stamp_def)
  have m: "match_awstats env (stamp @ 0x2E # w) = Some (mm, yyyy)"
    using assms(1,2,3) mm_y(3,4,5)
    by (simp add: match_awstats_def) (simp add: startswith_def stamp_def)
  have digits: "list_all (\<lambda>c. decimal env c \<noteq> None) mm" "list_all (\<lambda>c. decimal env c \<noteq> None) yyyy"
    "mm \<noteq> []" "yyyy \<noteq> []" "length mm \<le> 640" "length yyyy \<le> 640"
    using assms(1,2,3) by auto
  obtain mv where mv: "py_int env mm = Some mv"
    using py_int_digits[OF digits(1,3,5)] by blast
  obtain yv where yv: "py_int env yyyy = Some yv"
    using py_int_digits[OF digits(2,4,6)] by blast
  have "forced_file_name env filename = Inr (w, yv, mv)"
    using len2 m mv yv by (simp add: forced_file_name_def fwe Let_def sp2 join_split_on)
  then show ?thesis using name mv yv mm_y(1,2) by (simp add: year_of_def month_of_def)
qed

text \<open>The file name \<open>awstats032024.example.com.txt\<close>.\<close>

theorem filename_parsers_agree_witness:
  "forced_file_name example_env example_filename = Inr (str ''example.com'', 2024, 3)
   \<and> website_name_of example_filename = str ''example.com''
   \<and> year_of example_env example_filename = Some 2024
   \<and> month_of example_env example_filename = Some 3"
proof -
  have d: "length (str ''03'') = 2" "length (str ''2024'') = 4"
    "list_all (\<lambda>c. decimal example_env c \<noteq> None) (str ''03'' @ str ''2024'')"
    by (simp_all add: decimal_def between_def)
  have y: "year_of example_env example_filename = Some 2024"
    "month_of example_env example_filename = Some 3"
    by (simp_all add: example_filename_def year_of_def month_of_def py_int_def strip_with_def
        int_space_def decimal_def between_def too_many_digits_def example_env_def)
  show ?thesis
    using filename_parsers_agree [OF d, of "str ''example.com''"] y
    by (simp add: example_filename_def)
qed

subsection \<open>What the forced reset leaves alone\<close>

lemma reset_website_frame: "same_frame db (reset_state (reset_website args db))"
  by (simp add: same_frame_def reset_state_def reset_website_def
      delete_unused_urls_of_website_def delete_stats_of_website_def split: option.splits)

lemma reset_server_frame: "same_frame db (reset_state (reset_server args db))"
  by (simp add: same_frame_def reset_state_def reset_server_def)

lemma reset_file_frame: "same_frame db (reset_state (reset_file env args db))"
  by (simp add: same_frame_def reset_state_def reset_file_def
      delete_unused_urls_of_website_def delete_stats_of_month_def
      split: option.splits sum.splits prod.splits)

lemma reset_all_frame: "same_frame db (reset_state (reset_all args db))"
  by (simp add: same_frame_def reset_state_def reset_all_def delete_everything_def)

lemma forced_reset_frame: "same_frame db (reset_state (forced_reset env args db))"
proof (cases "reset_website args db")
  case (Inl out)
  then show ?thesis using reset_website_frame[of db args]
    by (simp add: forced_reset_def)
next
  case w: (Inr db1)
  then have f1: "same_frame db db1" using reset_website_frame[of db args]
    by (simp add: reset_state_def)
  show ?thesis
  proof (cases "reset_server args db1")
    case (Inl out)
    then show ?thesis using w f1 reset_server_frame[of db1 args]
      by (simp add: forced_reset_def same_frame_def)
  next
    case s: (Inr db2)
    then have f2: "same_frame db db2" using f1 reset_server_frame[of db1 args]
      by (simp add: reset_state_def same_frame_def)
    show ?thesis
    proof (cases "reset_file env args db2")
      case (Inl out)
      then show ?thesis using w s f2 reset_file_frame[of db2 env args]
        by (simp add: forced_reset_def same_frame_def)
    next
      case f: (Inr db3)
      then have f3: "same_frame db db3" using f2 reset_file_frame[of db2 env args]
        by (simp add: reset_state_def same_frame_def)
      show ?thesis using w s f f3 reset_all_frame[of db3 args]
        by (simp add: forced_reset_def same_frame_def)
    qed
  qed
qed

text \<open>
  C10. However the forced reset ends (it runs through, returns early or raises), the
  tables file_tracking and websites are as before: only website_url_stats and
  website_url are written, and every stored fingerprint survives.
\<close>

theorem forced_reset_keeps_tracking:
  "file_tracking (reset_state (forced_reset env args db)) = file_tracking db
   \<and> websites (reset_state (forced_reset env args db)) = websites db
   \<and> website_url_autoinc (reset_state (forced_reset env args db)) = website_url_autoinc db"
  using forced_reset_frame[of db env args] by (simp add: same_frame_def)

subsection \<open>Structural errors\<close>

lemma main_loops:
  "main env world args db
     = (case before_loops env args db of
          Inl out \<Rightarrow> out
        | Inr db1 \<Rightarrow> commit (process_directories env world args (selected_directories args) db1))"
  by (simp add: main_def before_loops_def selected_directories_def commit_def Let_def
      cong: sum.case_cong)

lemma listing_step_selected:
  "selected args filename \<Longrightarrow>
     process_listing env world args directory sid (filename # rest) db
       = continue_with (process_file env world db (path_join directory filename) sid (arg_force args))
           (process_listing env world args directory sid rest)"
  by (auto simp: selected_def continue_with_def)

lemma listing_append:
  "process_listing env world args directory sid (pre @ names) db
     = continue_with (process_listing env world args directory sid pre db)
         (process_listing env world args directory sid names)"
  by (induction pre arbitrary: db) (simp_all add: continue_with_def split: outcome.splits)

lemma directories_append:
  "process_directories env world args (before @ dirs) db
     = continue_with (process_directories env world args before db)
         (process_directories env world args dirs)"
  by (induction before arbitrary: db)
     (simp_all add: continue_with_def split: outcome.splits option.splits)

lemma directory_step_listing:
  "\<not> given (arg_file args) \<Longrightarrow> get_server_id directory = Some sid \<Longrightarrow>
   listdir world directory = Some names \<Longrightarrow>
     process_directories env world args (directory # after) db
       = continue_with (process_listing env world args directory sid names db)
           (process_directories env world args after)"
  by (simp add: continue_with_def)

lemma directory_step_file:
  "given (arg_file args) \<Longrightarrow> get_server_id directory = Some sid \<Longrightarrow>
   file_at world (path_join directory (value_of (arg_file args))) = Some f \<Longrightarrow>
     process_directories env world args (directory # after) db
       = continue_with
           (process_file env world db (path_join directory (value_of (arg_file args))) sid
              (arg_force args))
           (process_directories env world args after)"
  by (simp add: continue_with_def)

lemma continue_with_simps:
  "continue_with (Raised e d) k = Raised e d"
  "continue_with (Returned d) k = k d"
  by (simp_all add: continue_with_def)

lemma commit_simps:
  "commit (Raised e d) = Raised e d"
  "commit (Returned d) = Committed d"
  by (simp_all add: commit_def)

text \<open>The example names and files.\<close>

lemma first_server_id: "get_server_id (str ''/var/lib/awstats'') = Some 1"
  by (simp add: get_server_id_def)

lemma plain_args_start:
  "before_loops env plain_args db = Inr db"
  "selected_directories plain_args = [] @ str ''/var/lib/awstats'' # tl directories"
  "selected plain_args filename
     = (endswith filename (str ''.txt'') \<and> contains filename (str ''awstats''))"
  "\<not> given (arg_file plain_args)" "arg_force plain_args = False"
  by (simp_all add: before_loops_def selected_directories_def selected_def plain_args_def
      directories_def)

lemma website_args_start:
  "before_loops env website_args example_db = Inr example_db"
  "selected_directories website_args = [] @ str ''/var/lib/awstats'' # tl directories"
  "\<not> given (arg_file website_args)" "arg_force website_args = False"
  by (simp_all add: before_loops_def selected_directories_def website_args_def example_db_def
      directories_def)

lemma run_first_directory:
  assumes "before_loops env args db0 = Inr db"
    and "selected_directories args = [] @ str ''/var/lib/awstats'' # tl directories"
    and "\<not> given (arg_file args)"
    and "listdir world (str ''/var/lib/awstats'') = Some names"
  shows "main env world args db0
     = commit (continue_with
         (process_listing env world args (str ''/var/lib/awstats'') 1 names db)
         (process_directories env world args (tl directories)))"
proof -
  have "main env world args db0
      = commit (process_directories env world args (str ''/var/lib/awstats'' # tl directories) db)"
    using assms(1,2) by (simp add: main_loops)
  then show ?thesis
    unfolding directory_step_listing[OF assms(3) first_server_id assms(4)] .
qed

lemma other_name:
  "endswith other_filename (str ''.txt'')" "contains other_filename (str ''awstats'')"
  "path_join (str ''/var/lib/awstats'') other_filename = other_path"
  "basename other_path = other_filename"
  "selected website_args other_filename"
  by (simp_all add: other_filename_def other_path_def endswith_def startswith_def path_join_def
      basename_def selected_def website_args_def)

lemma example_name_ok:
  "endswith example_filename (str ''.txt'')" "contains example_filename (str ''awstats'')"
  "path_join (str ''/var/lib/awstats'') example_filename = example_path"
  "selected website_args example_filename"
  by (simp_all add: example_filename_def example_path_def endswith_def startswith_def path_join_def
      selected_def website_args_def)

lemma bad_file_parse:
  "parse_begin_map example_env bad_file = Inr [str ''POS_SIDER'' \<mapsto> 33]"
  "parse_pos_sider example_env bad_file 33 = Inl ValueError"
  by (simp_all add: parse_begin_map_def parse_pos_sider_def seek_def normalize_url_def
      example_env_def bad_file_def eval_defs)

lemma two_file_world_facts:
  "listdir (two_file_world bytes) (str ''/var/lib/awstats'') = Some [other_filename, example_filename]"
  "file_at (two_file_world bytes) other_path = Some \<lparr>mtime = 1000, content = bytes\<rparr>"
  "file_at (two_file_world bytes) example_path = Some \<lparr>mtime = 1000, content = example_file\<rparr>"
  "localtime (two_file_world bytes) s = Inr s"
  "clock (two_file_world bytes) p = \<lparr>seconds = 3000, microsecond = 5\<rparr>"
  by (simp_all add: two_file_world_def other_path_def example_path_def)

lemma two_file_world_second:
  "localtime (two_file_world bytes) \<lfloor>mtime \<lparr>mtime = 1000, content = c\<rparr> + 1 / 2000000\<rfloor> = Inr 1000"
  using example_seconds(1) by (simp add: two_file_world_facts(4))

lemma other_directories:
  "\<not> given (arg_file args) \<Longrightarrow>
     process_directories env (two_file_world bytes) args (tl directories) db = Returned db"
  "\<not> given (arg_file args) \<Longrightarrow>
     process_directories env (example_world t bytes) args (tl directories) db = Returned db"
  by (simp_all add: directories_def get_server_id_def two_file_world_def example_world_def)

lemma other_unprocessed:
  "\<not> truthy (has_file_been_processed example_db other_filename 1 \<lparr>seconds = 1000, microsecond = 0\<rparr>
        forced)"
  by (simp add: has_file_been_processed_def tracking_key_def example_db_def other_filename_def)

lemma bad_file_raises:
  "process_file example_env (two_file_world bad_file) example_db other_path 1 False
     = Raised ValueError example_db"
  unfolding process_file_at_second[OF two_file_world_facts(2) two_file_world_second] other_name(4)
  using other_unprocessed[of False] by (simp add: ingest_def bad_file_parse)

lemma two_file_example_process:
  "process_file example_env (two_file_world bytes) example_db example_path 1 False
     = Returned example_db_after"
proof -
  have h: "\<not> truthy (has_file_been_processed example_db example_filename 1
             \<lparr>seconds = 1000, microsecond = 0\<rparr> False)"
    by (simp add: has_file_been_processed_def tracking_key_def example_db_def example_filename_def)
  show ?thesis
    unfolding process_file_at_second[OF two_file_world_facts(3) two_file_world_second]
      example_name(1)
    using h example_ingest by (simp add: two_file_world_facts(5))
qed

text \<open>
  C4 (as amended). In any run, whatever its options, take any file that the loops
  reach: \<open>main\<close> has come to the loops, the directories before the file's directory
  have been processed without an exception, and either the file is the one that
  \<open>--file\<close> names, or it is listed in the directory, its name passes the filter and the
  names listed before it have been processed without an exception. Let the file not be
  skipped as already processed, and let its index be readable. When the index has no
  \<open>POS_SIDER\<close>, \<open>process_file\<close> returns with the database untouched and the run goes on
  from that database with the names listed after the file and then with the remaining
  directories. When \<open>parse_pos_sider\<close> raises (a counter that is no integer),
  \<open>process_file\<close> raises with the database untouched, nothing of the file merged and no
  fingerprint recorded, and the exception ends the whole run: no later file is processed
  and nothing is committed.
\<close>

theorem structural_errors:
  assumes "before_loops env args db0 = Inr db_start"
    and "selected_directories args = before @ directory # after"
    and "get_server_id directory = Some sid"
    and "process_directories env world args before db_start = Returned db1"
    and "if given (arg_file args)
         then name = value_of (arg_file args) \<and> rest = [] \<and> db = db1
         else listdir world directory = Some (pre @ name # rest) \<and> selected args name
              \<and> process_listing env world args directory sid pre db1 = Returned db"
    and "file_at world (path_join directory name) = Some f"
    and "localtime world \<lfloor>mtime f + 1 / 2000000\<rfloor> = Inr s"
    and "\<not> truthy (has_file_been_processed db (basename (path_join directory name)) sid
               \<lparr>seconds = s, microsecond = 0\<rparr> (arg_force args))"
    and "parse_begin_map env (content f) = Inr positions"
  shows "(positions (str ''POS_SIDER'') = None \<longrightarrow>
            process_file env world db (path_join directory name) sid (arg_force args) = Returned db
            \<and> main env world args db0
              = commit (continue_with (process_listing env world args directory sid rest db)
                          (process_directories env world args after)))
       \<and> (\<forall>offset e. positions (str ''POS_SIDER'') = Some offset
              \<and> parse_pos_sider env (content f) offset = Inl e \<longrightarrow>
            process_file env world db (path_join directory name) sid (arg_force args) = Raised e db
            \<and> main env world args db0 = Raised e db)"
proof -
  let ?pf = "process_file env world db (path_join directory name) sid (arg_force args)"
  let ?after = "process_directories env world args after"
  have pf: "?pf = ingest env db (basename (path_join directory name)) sid
                    \<lparr>seconds = s, microsecond = 0\<rparr>
                    ((clock world (path_join directory name))\<lparr>microsecond := 0\<rparr>) (content f)"
    unfolding process_file_at_second[OF assms(6,7)] using assms(8) by simp
  have here: "process_directories env world args (directory # after) db1
      = continue_with ?pf
          (\<lambda>d. continue_with (process_listing env world args directory sid rest d) ?after)"
  proof (cases "given (arg_file args)")
    case True
    with assms(5) have m: "name = value_of (arg_file args)" "rest = []" "db = db1" by simp_all
    have f: "file_at world (path_join directory (value_of (arg_file args))) = Some f"
      using assms(6) m(1) by simp
    show ?thesis
      unfolding directory_step_file[OF True assms(3) f] m
      by (simp add: continue_with_def)
  next
    case False
    with assms(5) have m: "listdir world directory = Some (pre @ name # rest)"
      "selected args name" "process_listing env world args directory sid pre db1 = Returned db"
      by simp_all
    show ?thesis
      unfolding directory_step_listing[OF False assms(3) m(1)]
        listing_append[of env world args directory sid pre "name # rest"] m(3)
        continue_with_simps listing_step_selected[OF m(2)]
      by (simp add: continue_with_def split: outcome.splits)
  qed
  have "main env world args db0
      = commit (process_directories env world args (before @ directory # after) db_start)"
    using assms(1,2) by (simp add: main_loops)
  also have "process_directories env world args (before @ directory # after) db_start
      = process_directories env world args (directory # after) db1"
    unfolding directories_append[of env world args before] assms(4) continue_with_simps ..
  finally have run: "main env world args db0
      = commit (continue_with ?pf
          (\<lambda>d. continue_with (process_listing env world args directory sid rest d) ?after))"
    unfolding here .
  have a: "?pf = Returned db
      \<and> main env world args db0
          = commit (continue_with (process_listing env world args directory sid rest db) ?after)"
    if "positions (str ''POS_SIDER'') = None"
  proof -
    have r: "?pf = Returned db" unfolding pf using that assms(9) by (simp add: ingest_def)
    show ?thesis unfolding run unfolding r continue_with_simps by simp
  qed
  have b: "?pf = Raised e db \<and> main env world args db0 = Raised e db"
    if "positions (str ''POS_SIDER'') = Some offset" "parse_pos_sider env (content f) offset = Inl e"
    for offset e
  proof -
    have r: "?pf = Raised e db" unfolding pf using that assms(9) by (simp add: ingest_def)
    show ?thesis unfolding run unfolding r continue_with_simps commit_simps by simp
  qed
  show ?thesis using a b by blast
qed

text \<open>
  The run does not go on after a counter that is no integer: with such a file listed
  before the example file, \<open>main\<close> ends with ValueError and the database as it was,
  where the example file alone is merged and committed.
\<close>

theorem bad_counter_aborts_run:
  "main example_env (two_file_world bad_file) plain_args example_db = Raised ValueError example_db
   \<and> main example_env (example_world 1000 example_file) plain_args example_db
       = Committed example_db_after"
proof -
  have s1: "selected plain_args other_filename" "selected plain_args example_filename"
    unfolding plain_args_start(3) using other_name(1,2) example_name_ok(1,2) by simp_all
  have l1: "process_listing example_env (two_file_world bad_file) plain_args
              (str ''/var/lib/awstats'') 1 [other_filename, example_filename] example_db
      = Raised ValueError example_db"
    unfolding listing_step_selected[OF s1(1)] other_name(3) plain_args_start(5) bad_file_raises
      continue_with_simps ..
  have a: "main example_env (two_file_world bad_file) plain_args example_db
      = Raised ValueError example_db"
    unfolding run_first_directory[OF plain_args_start(1,2,4) two_file_world_facts(1)] l1
      continue_with_simps commit_simps ..
  have l2: "process_listing example_env (example_world 1000 example_file) plain_args
              (str ''/var/lib/awstats'') 1 [example_filename] example_db
      = Returned example_db_after"
    unfolding listing_step_selected[OF s1(2)] example_name_ok(3) plain_args_start(5)
      example_process_file[OF example_seconds(1)] continue_with_simps
    by simp
  have b: "main example_env (example_world 1000 example_file) plain_args example_db
      = Committed example_db_after"
    unfolding run_first_directory[OF plain_args_start(1,2,4) example_world_facts(4)] l2
      continue_with_simps other_directories(2)[OF plain_args_start(4)] commit_simps ..
  show ?thesis using a b by simp
qed

text \<open>
  Under \<open>--website example.com\<close>, on the world of two listed files: an empty first file
  is passed over and the example file after it is merged and committed; the bad first
  file ends the run. Under \<open>--force --file\<close> for the bad file, after the forced reset has
  swept the URL that has no stats row, and under \<open>--force\<close> alone, after the forced reset
  has emptied the two tables, the bad file ends the run too.
\<close>

theorem structural_errors_witness:
  "process_file example_env (two_file_world []) example_db other_path 1 False = Returned example_db
   \<and> main example_env (two_file_world []) website_args example_db = Committed example_db_after
   \<and> process_file example_env (two_file_world bad_file) example_db other_path 1 False
       = Raised ValueError example_db
   \<and> main example_env (two_file_world bad_file) website_args example_db
       = Raised ValueError example_db
   \<and> process_file example_env (two_file_world bad_file) example_db_swept other_path 1 True
       = Raised ValueError example_db_swept
   \<and> main example_env (two_file_world bad_file) forced_file_args example_db
       = Raised ValueError example_db_swept
   \<and> process_file example_env (two_file_world bad_file) example_db_emptied other_path 1 True
       = Raised ValueError example_db_emptied
   \<and> main example_env (two_file_world bad_file) force_args example_db
       = Raised ValueError example_db_emptied"
proof -
  have start: "process_directories example_env (two_file_world bytes) args [] d = Returned d"
    for bytes args d
    by simp
  have mode: "if given (arg_file website_args)
         then other_filename = value_of (arg_file website_args) \<and> [example_filename] = [] \<and> example_db = example_db
         else listdir (two_file_world bytes) (str ''/var/lib/awstats'')
                = Some ([] @ other_filename # [example_filename])
              \<and> selected website_args other_filename
              \<and> process_listing example_env (two_file_world bytes) website_args
                  (str ''/var/lib/awstats'') 1 [] example_db = Returned example_db" for bytes
    using two_file_world_facts(1)[of bytes] other_name(5) website_args_start(3) by simp
  have f: "file_at (two_file_world bytes) (path_join (str ''/var/lib/awstats'') other_filename)
     = Some \<lparr>mtime = 1000, content = bytes\<rparr>" for bytes
    unfolding other_name(3) by (rule two_file_world_facts(2))
  have u: "\<not> truthy (has_file_been_processed example_db
               (basename (path_join (str ''/var/lib/awstats'') other_filename)) 1
               \<lparr>seconds = 1000, microsecond = 0\<rparr> (arg_force website_args))"
    unfolding other_name(3,4) by (rule other_unprocessed)
  have p1: "parse_begin_map example_env (content \<lparr>mtime = (1000 :: rat), content = []\<rparr>) = Inr Map.empty"
    by (simp add: parse_begin_map_def)
  have p2: "parse_begin_map example_env (content \<lparr>mtime = (1000 :: rat), content = bad_file\<rparr>)
              = Inr [str ''POS_SIDER'' \<mapsto> 33]"
    using bad_file_parse(1) by simp
  note t1 = structural_errors [OF website_args_start(1,2) first_server_id start mode f
              two_file_world_second u p1]
  note t2 = structural_errors [OF website_args_start(1,2) first_server_id start mode f
              two_file_world_second u p2]
  have rest: "process_listing example_env (two_file_world []) website_args
                (str ''/var/lib/awstats'') 1 [example_filename] example_db
      = Returned example_db_after"
    unfolding listing_step_selected[OF example_name_ok(4)] example_name_ok(3)
      website_args_start(4) two_file_example_process continue_with_simps
    by simp
  from t1 have a: "process_file example_env (two_file_world []) example_db other_path 1 False
        = Returned example_db
     \<and> main example_env (two_file_world []) website_args example_db = Committed example_db_after"
    unfolding other_name(3) website_args_start(4) rest continue_with_simps
      other_directories(1)[OF website_args_start(3)] commit_simps
    by simp
  from t2 bad_file_parse(2)
  have b: "process_file example_env (two_file_world bad_file) example_db other_path 1 False
       = Raised ValueError example_db
     \<and> main example_env (two_file_world bad_file) website_args example_db
       = Raised ValueError example_db"
    unfolding other_name(3) website_args_start(4) by simp
  have fs: "before_loops example_env forced_file_args example_db = Inr example_db_swept"
    "selected_directories forced_file_args = [] @ str ''/var/lib/awstats'' # tl directories"
    "given (arg_file forced_file_args)" "arg_force forced_file_args = True"
    "value_of (arg_file forced_file_args) = other_filename"
    by (simp_all add: before_loops_def selected_directories_def forced_file_args_def
        forced_reset_def reset_website_def reset_server_def reset_file_def reset_all_def
        forced_file_name_def match_awstats_def delete_stats_of_month_def
        delete_unused_urls_of_website_def example_db_swept_def example_db_def example_env_def
        other_filename_def directories_def eval_defs)
  have fmode: "if given (arg_file forced_file_args)
         then other_filename = value_of (arg_file forced_file_args) \<and> [] = ([] :: pystr list)
              \<and> example_db_swept = example_db_swept
         else listdir (two_file_world bad_file) (str ''/var/lib/awstats'')
                = Some ([] @ other_filename # [])
              \<and> selected forced_file_args other_filename
              \<and> process_listing example_env (two_file_world bad_file) forced_file_args
                  (str ''/var/lib/awstats'') 1 [] example_db_swept = Returned example_db_swept"
    using fs(3,5) by simp
  have fu: "\<not> truthy (has_file_been_processed example_db_swept
               (basename (path_join (str ''/var/lib/awstats'') other_filename)) 1
               \<lparr>seconds = 1000, microsecond = 0\<rparr> (arg_force forced_file_args))"
    unfolding fs(4) by (simp add: has_file_been_processed_def)
  note t3 = structural_errors [OF fs(1,2) first_server_id start fmode f
              two_file_world_second fu p2]
  from t3 bad_file_parse(2)
  have c: "process_file example_env (two_file_world bad_file) example_db_swept other_path 1 True
       = Raised ValueError example_db_swept
     \<and> main example_env (two_file_world bad_file) forced_file_args example_db
       = Raised ValueError example_db_swept"
    unfolding other_name(3) fs(4) by simp
  have gs: "before_loops example_env force_args example_db = Inr example_db_emptied"
    "selected_directories force_args = [] @ str ''/var/lib/awstats'' # tl directories"
    "\<not> given (arg_file force_args)" "arg_force force_args = True"
    "selected force_args other_filename"
    using other_name(1,2)
    by (simp_all add: before_loops_def selected_directories_def selected_def force_args_def
        forced_reset_def reset_website_def reset_server_def reset_file_def reset_all_def
        delete_everything_def example_db_emptied_def directories_def)
  have gmode: "if given (arg_file force_args)
         then other_filename = value_of (arg_file force_args) \<and> [example_filename] = []
              \<and> example_db_emptied = example_db_emptied
         else listdir (two_file_world bad_file) (str ''/var/lib/awstats'')
                = Some ([] @ other_filename # [example_filename])
              \<and> selected force_args other_filename
              \<and> process_listing example_env (two_file_world bad_file) force_args
                  (str ''/var/lib/awstats'') 1 [] example_db_emptied = Returned example_db_emptied"
    using two_file_world_facts(1)[of bad_file] gs(3,5) by simp
  have gu: "\<not> truthy (has_file_been_processed example_db_emptied
               (basename (path_join (str ''/var/lib/awstats'') other_filename)) 1
               \<lparr>seconds = 1000, microsecond = 0\<rparr> (arg_force force_args))"
    unfolding gs(4) by (simp add: has_file_been_processed_def)
  note t4 = structural_errors [OF gs(1,2) first_server_id start gmode f
              two_file_world_second gu p2]
  from t4 bad_file_parse(2)
  have d: "process_file example_env (two_file_world bad_file) example_db_emptied other_path 1 True
       = Raised ValueError example_db_emptied
     \<and> main example_env (two_file_world bad_file) force_args example_db
       = Raised ValueError example_db_emptied"
    unfolding other_name(3) gs(4) by simp
  show ?thesis using a b c d by simp
qed

subsection \<open>The orphan sweep\<close>

text \<open>
  After the two statements of the website scope, of the single-file scope and of the
  global scope, no URL row of the scope is left without a stats row. The two statements
  of the server scope would leave none either.
\<close>

lemma website_scope_swept:
  "\<forall>wu \<in> set (website_url (delete_unused_urls_of_website (delete_stats_of_website db w) w)).
      wu_website_id wu = w \<longrightarrow>
      referenced (delete_unused_urls_of_website (delete_stats_of_website db w) w) wu"
  by (auto simp: referenced_def delete_unused_urls_of_website_def delete_stats_of_website_def)

lemma server_scope_swept:
  "\<forall>wu \<in> set (website_url (delete_unused_urls (delete_stats_of_server db s))).
      referenced (delete_unused_urls (delete_stats_of_server db s)) wu"
  by (auto simp: referenced_def delete_unused_urls_def delete_stats_of_server_def)

lemma month_scope_swept:
  "\<forall>wu \<in> set (website_url (delete_unused_urls_of_website (delete_stats_of_month db w y m) w)).
      wu_website_id wu = w \<longrightarrow>
      referenced (delete_unused_urls_of_website (delete_stats_of_month db w y m) w) wu"
  by (auto simp: referenced_def delete_unused_urls_of_website_def delete_stats_of_month_def)

lemma global_scope_swept:
  "website_url (delete_everything db) = [] \<and> website_url_stats (delete_everything db) = []"
  by (simp add: delete_everything_def)

text \<open>
  C7. The claim: after the deletions of every forced-reset scope, the server scope
  among them, no \<open>website_url\<close> row of the scope is left with no stats row. Under
  \<open>--force --server frankfurt\<close> the script raises NameError at line 249, before the
  deletion and the sweep of the server scope: the database is as it was, and a URL row
  that no stats row references is still there.
\<close>

theorem forced_reset_server_raises:
  "forced_reset example_env server_args example_db = Inl (Raised NameError example_db)
   \<and> main example_env (example_world 1000 example_file) server_args example_db
       = Raised NameError example_db
   \<and> \<lparr>wu_id = 2, wu_website_id = 1, wu_url = str ''Orphan''\<rparr> \<in> set (website_url example_db)
   \<and> \<not> referenced example_db \<lparr>wu_id = 2, wu_website_id = 1, wu_url = str ''Orphan''\<rparr>"
  by (simp add: main_def forced_reset_def reset_website_def reset_server_def server_args_def
      directories_def startswith_def referenced_def example_db_def)

subsection \<open>The offset index\<close>

text \<open>
  C9. A line of the index region with exactly two tokens, the first starting with
  \<open>POS_\<close> and the second not an integer literal, makes \<open>parse_begin_map\<close> raise
  ValueError: the line is not skipped. The line \<open>POS_SIDER abc\<close> is one, whatever the
  environment.
\<close>

theorem parse_begin_map_int_error:
  "split (strip (str ''POS_SIDER abc'')) = [str ''POS_SIDER'', str ''abc'']
   \<and> startswith (str ''POS_SIDER'') (str ''POS_'')
   \<and> py_int env (str ''abc'') = None
   \<and> parse_begin_map env (''BEGIN_MAP 2'' @ [CHR 0x0A] @ ''POS_SIDER abc'' @ [CHR 0x0A]
                          @ ''END_MAP'' @ [CHR 0x0A]) = Inl ValueError"
  by (simp add: parse_begin_map_def eval_defs)

end
